theory Spec2Isabelle
  imports Complex_Main "HOL-Library.Word"
begin

section \<open>Python and library values\<close>

text \<open>
  The notebooks show a PySide2 application: three OpenGL widgets (\<open>RectangleGL\<close>,
  \<open>CubeGL\<close>, \<open>EventsGL\<close>) and the window \<open>EventAppWindow\<close> that wires sliders and
  buttons to the widget. Python floats are modelled by the real numbers they denote
  (no rounding); every float that occurs is a literal, an integer converted by
  \<open>float\<close>, or a quotient of two widget dimensions. Calls into Qt and OpenGL are
  recorded, in order, in the widget's command log.
\<close>

datatype error = ZeroDivisionError | AttributeError

type_synonym vec3 = "real \<times> real \<times> real"

definition QVector3D :: "real \<Rightarrow> real \<Rightarrow> real \<Rightarrow> vec3" where
  "QVector3D x y z = (x, y, z)"

text \<open>Python's \<open>a / b\<close> on two ints: a float, or \<open>ZeroDivisionError\<close>.\<close>

definition truediv :: "int \<Rightarrow> int \<Rightarrow> error + real" where
  "truediv a b = (if b = 0 then Inl ZeroDivisionError else Inr (real_of_int a / real_of_int b))"

text \<open>Python's \<open>float(n)\<close> on an int (exact for the C ints a slider holds).\<close>

definition float :: "int \<Rightarrow> real" where
  "float n = real_of_int n"

subsection \<open>QMatrix4x4: a matrix as the library calls that built it\<close>

datatype mat_op =
    Perspective real real real real
  | Translate vec3
  | Rotate real vec3

type_synonym QMatrix4x4 = "mat_op list"

definition QMatrix4x4 :: QMatrix4x4 where
  "QMatrix4x4 = []"

definition QMatrix4x4_perspective :: "real \<Rightarrow> real \<Rightarrow> real \<Rightarrow> real \<Rightarrow> QMatrix4x4 \<Rightarrow> QMatrix4x4" where
  "QMatrix4x4_perspective verticalAngle aspectRatio nearPlane farPlane m =
     m @ [Perspective verticalAngle aspectRatio nearPlane farPlane]"

definition QMatrix4x4_translate :: "vec3 \<Rightarrow> QMatrix4x4 \<Rightarrow> QMatrix4x4" where
  "QMatrix4x4_translate v m = m @ [Translate v]"

definition QMatrix4x4_rotate :: "real \<Rightarrow> vec3 \<Rightarrow> QMatrix4x4 \<Rightarrow> QMatrix4x4" where
  "QMatrix4x4_rotate angle v m = m @ [Rotate angle v]"

subsection \<open>The camera\<close>

datatype camera_call = Cam_lookAround real real bool | Cam_move string

text \<open>
  Modelled from the spec: the class \<open>QtCamera\<close> (\<open>camera.py\<close>) is not among the
  sources. The spec lists the camera state as position, front/up/right vectors, yaw,
  pitch and zoom. The bodies of its methods are unknown, so a method call on the camera
  is kept in \<open>calls\<close>, in order, with the arguments it received.
\<close>

record camera =
  position :: vec3
  front :: vec3
  up :: vec3
  right :: vec3
  yaw :: real
  pitch :: real
  zoom :: real
  calls :: "camera_call list"

text \<open>
  Modelled from the spec: \<open>QtCamera.lookAround\<close> (\<open>camera.py\<close>) is not among the
  sources. The spec speaks of offset accumulation and vector renormalization; how the
  offsets and \<open>pitchBound\<close> enter the angles is not given, so the camera keeps the call.
\<close>

definition lookAround :: "real \<Rightarrow> real \<Rightarrow> bool \<Rightarrow> camera \<Rightarrow> camera" where
  "lookAround xoffset yoffset pitchBound c =
     c\<lparr>calls := calls c @ [Cam_lookAround xoffset yoffset pitchBound]\<rparr>"

text \<open>
  Modelled from the spec: the camera method that \<open>EventsGL.moveCamera\<close> hands the
  direction to (\<open>camera.py\<close>) is not among the sources; the camera keeps the call.
\<close>

definition move :: "string \<Rightarrow> camera \<Rightarrow> camera" where
  "move direction c = c\<lparr>calls := calls c @ [Cam_move direction]\<rparr>"

subsection \<open>The OpenGL and Qt calls a widget issues\<close>

datatype clear_bit = GL_COLOR_BUFFER_BIT | GL_DEPTH_BUFFER_BIT
datatype gl_mode = GL_TRIANGLES
datatype gl_type = GL_FLOAT | GL_UNSIGNED_INT
datatype gl_cap = GL_DEPTH_TEST | GL_TEXTURE_2D
datatype shader_stage = Vertex | Fragment
datatype tex_filter = Nearest | Linear
datatype tex_direction = DirectionS | DirectionT
datatype tex_wrap = Repeat

text \<open>
  The value of a uniform. The view matrix is what \<open>camera.getViewMatrix()\<close> returns;
  its body (\<open>camera.py\<close>) is not among the sources, so the value is kept as the camera
  state it is computed from.
\<close>

datatype uniform_value =
    UMatrix QMatrix4x4
  | UViewMatrix camera
  | UInt nat

type_synonym texture = nat

datatype gl_cmd =
    ContextCreate
  | ConnectAboutToBeDestroyed
  | InitializeOpenGLFunctions
  | GlClearColor real real real real
  | GlEnable gl_cap
  | GlClear "clear_bit list"
  | ProgramCreate
  | AddShader shader_stage string
  | BindAttributeLocation string nat
  | ProgramLink
  | ProgramBind
  | ProgramRelease
  | SetUniformValue string uniform_value
  | VboCreate
  | VboBind
  | VboAllocate "real list" nat
  | VboRelease
  | VaoCreate
  | VaoBind
  | VaoRelease
  | GlEnableVertexAttribArray nat
  | GlVertexAttribPointer nat nat gl_type bool nat nat
  | TextureCreate texture
  | TextureBind texture nat
  | TextureSetData texture string
  | TextureSetMinMagFilters texture tex_filter tex_filter
  | TextureSetWrapMode texture tex_direction tex_wrap
  | TextureRelease texture
  | GlDrawArrays gl_mode nat nat
  | GlDrawElements gl_mode nat gl_type "32 word list"

text \<open>
  The base class of the three widgets: its size, the commands issued so far, and the
  number of repaints requested with \<open>update()\<close>.
\<close>

record QOpenGLWidget =
  width :: int
  height :: int
  gl :: "gl_cmd list"
  updates :: nat

definition emit :: "gl_cmd list \<Rightarrow> 'a QOpenGLWidget_scheme \<Rightarrow> 'a QOpenGLWidget_scheme" where
  "emit cs self = self\<lparr>gl := gl self @ cs\<rparr>"

definition QWidget_update :: "'a QOpenGLWidget_scheme \<Rightarrow> 'a QOpenGLWidget_scheme" where
  "QWidget_update self = self\<lparr>updates := Suc (updates self)\<rparr>"

definition floatSize :: nat where
  "floatSize = 4"

section \<open>RectangleGL (02-rectangle)\<close>

record RectangleGL = QOpenGLWidget +
  indices :: "32 word list"
  vertexData :: "real list"
  rectColor :: "real \<times> real \<times> real \<times> real"

definition RectangleGL_init :: "int \<Rightarrow> int \<Rightarrow> RectangleGL" where
  "RectangleGL_init w h =
     \<lparr>width = w, height = h, gl = [], updates = 0,
      indices = [0, 1, 3,
                 1, 2, 3],
      vertexData = [0.5, 0.5, 0.0,
                    0.5, - 0.5, 0.0,
                    - 0.5, - 0.5, 0.0,
                    - 0.5, 0.5, 0.0],
      rectColor = (0.0, 1.0, 1.0, 0.0)\<rparr>"

definition RectangleGL_paintGL :: "RectangleGL \<Rightarrow> RectangleGL" where
  "RectangleGL_paintGL self =
     emit [GlClear [GL_COLOR_BUFFER_BIT],
           VaoBind,
           ProgramBind,
           GlDrawElements GL_TRIANGLES (length (indices self)) GL_UNSIGNED_INT (indices self),
           VaoRelease,
           ProgramRelease] self"

text \<open>The element counts of every \<open>glDrawElements\<close> call in a command log.\<close>

fun draw_elements_counts :: "gl_cmd list \<Rightarrow> nat list" where
  "draw_elements_counts [] = []"
| "draw_elements_counts (GlDrawElements m n t ix # cs) = n # draw_elements_counts cs"
| "draw_elements_counts (c # cs) = draw_elements_counts cs"

text \<open>The number of vertices in a flat array of \<open>k\<close>-component vertices.\<close>

definition vertex_count :: "nat \<Rightarrow> real list \<Rightarrow> nat" where
  "vertex_count k vs = length vs div k"

section \<open>CubeGL (05-cube)\<close>

text \<open>
  The fields of the constructor that the drawing code reads. Shader paths and the
  \<open>--coreprofile\<close> flag come from the file system and the command line and are left
  out; the two images are named by their files.
\<close>

record CubeGL = QOpenGLWidget +
  camera :: camera
  image1 :: string
  image2 :: string
  texture1 :: "texture option"
  texture2 :: "texture option"
  texUnit1 :: nat
  texUnit2 :: nat
  cubeVertices :: "real list"
  cubeCoords :: "vec3 list"

text \<open>
  The constructor. \<open>qtCamera\<close> is the value of \<open>QtCamera()\<close> (its defaults are in
  \<open>camera.py\<close>, not among the sources); \<open>w\<close> and \<open>h\<close> are the widget's size.
\<close>

definition CubeGL_init :: "camera \<Rightarrow> int \<Rightarrow> int \<Rightarrow> CubeGL" where
  "CubeGL_init qtCamera w h =
     \<lparr>width = w, height = h, gl = [], updates = 0,
      camera = qtCamera\<lparr>position := QVector3D 0.0 0.0 3.0,
                        front := QVector3D 0.0 0.0 (- 1.0),
                        up := QVector3D 0.0 1.0 0.0\<rparr>,
      image1 = ''im0.png'',
      image2 = ''im1.png'',
      texture1 = None,
      texture2 = None,
      texUnit1 = 0,
      texUnit2 = 1,
      cubeVertices = [
        - 0.5, - 0.5, - 0.5, 0.0, 0.0,
        0.5, - 0.5, - 0.5, 1.0, 0.0,
        0.5, 0.5, - 0.5, 1.0, 1.0,
        0.5, 0.5, - 0.5, 1.0, 1.0,
        - 0.5, 0.5, - 0.5, 0.0, 1.0,
        - 0.5, - 0.5, - 0.5, 0.0, 0.0,
        - 0.5, - 0.5, 0.5, 0.0, 0.0,
        0.5, - 0.5, 0.5, 1.0, 0.0,
        0.5, 0.5, 0.5, 1.0, 1.0,
        0.5, 0.5, 0.5, 1.0, 1.0,
        - 0.5, 0.5, 0.5, 0.0, 1.0,
        - 0.5, - 0.5, 0.5, 0.0, 0.0,
        - 0.5, 0.5, 0.5, 1.0, 0.0,
        - 0.5, 0.5, - 0.5, 1.0, 1.0,
        - 0.5, - 0.5, - 0.5, 0.0, 1.0,
        - 0.5, - 0.5, - 0.5, 0.0, 1.0,
        - 0.5, - 0.5, 0.5, 0.0, 0.0,
        - 0.5, 0.5, 0.5, 1.0, 0.0,
        0.5, 0.5, 0.5, 1.0, 0.0,
        0.5, 0.5, - 0.5, 1.0, 1.0,
        0.5, - 0.5, - 0.5, 0.0, 1.0,
        0.5, - 0.5, - 0.5, 0.0, 1.0,
        0.5, - 0.5, 0.5, 0.0, 0.0,
        0.5, 0.5, 0.5, 1.0, 0.0,
        - 0.5, - 0.5, - 0.5, 0.0, 1.0,
        0.5, - 0.5, - 0.5, 1.0, 1.0,
        0.5, - 0.5, 0.5, 1.0, 0.0,
        0.5, - 0.5, 0.5, 1.0, 0.0,
        - 0.5, - 0.5, 0.5, 0.0, 0.0,
        - 0.5, - 0.5, - 0.5, 0.0, 1.0,
        - 0.5, 0.5, - 0.5, 0.0, 1.0,
        0.5, 0.5, - 0.5, 1.0, 1.0,
        0.5, 0.5, 0.5, 1.0, 0.0,
        0.5, 0.5, 0.5, 1.0, 0.0,
        - 0.5, 0.5, 0.5, 0.0, 0.0,
        - 0.5, 0.5, - 0.5, 0.0, 1.0],
      cubeCoords = [
        QVector3D 0.0 0.0 0.0,
        QVector3D 2.0 5.0 (- 15.0),
        QVector3D (- 1.5) (- 2.2) (- 2.5),
        QVector3D (- 3.8) (- 2.0) (- 12.3),
        QVector3D 2.4 (- 0.4) (- 3.5),
        QVector3D (- 1.7) 3.0 (- 7.5),
        QVector3D 1.3 (- 2.0) (- 2.5),
        QVector3D 1.5 2.0 (- 2.5),
        QVector3D 1.5 0.2 (- 1.5),
        QVector3D (- 1.3) 1.0 (- 1.5)]\<rparr>"

text \<open>
  \<open>initializeGL\<close>: the result is the outcome (an error raised, or a normal return) and
  the widget at that point. The two \<open>print\<close> calls and \<open>getGlInfo\<close> are not modelled.
\<close>

definition CubeGL_initializeGL ::
  "'a CubeGL_scheme \<Rightarrow> (error + unit) \<times> 'a CubeGL_scheme" where
  "CubeGL_initializeGL self =
     (let s1 = emit [ContextCreate,
                     ConnectAboutToBeDestroyed,
                     InitializeOpenGLFunctions,
                     GlClearColor 0.0 0.4 0.4 0,
                     GlEnable GL_DEPTH_TEST,
                     GlEnable GL_TEXTURE_2D,
                     ProgramCreate,
                     AddShader Vertex ''cube'',
                     AddShader Fragment ''cube'',
                     BindAttributeLocation ''aPos'' 0,
                     BindAttributeLocation ''aTexCoord'' 1,
                     ProgramLink,
                     ProgramBind] self
      in case truediv (width s1) (height s1) of
           Inl e \<Rightarrow> (Inl e, s1)
         | Inr aspect \<Rightarrow>
             (let projectionMatrix = QMatrix4x4_perspective (zoom (camera s1)) aspect 0.2 100.0 QMatrix4x4;
                  s2 = emit [SetUniformValue ''projection'' (UMatrix projectionMatrix),
                             SetUniformValue ''view'' (UViewMatrix (camera s1)),
                             SetUniformValue ''myTexture1'' (UInt (texUnit1 s1)),
                             SetUniformValue ''myTexture2'' (UInt (texUnit2 s1)),
                             VboCreate,
                             VboBind,
                             VboAllocate (cubeVertices s1) (floatSize * length (cubeVertices s1)),
                             VaoCreate,
                             VaoBind,
                             GlEnableVertexAttribArray 0,
                             GlVertexAttribPointer 0 3 GL_FLOAT False (5 * floatSize) 0,
                             GlEnableVertexAttribArray 1,
                             GlVertexAttribPointer 1 2 GL_FLOAT False (5 * floatSize) (3 * floatSize)] s1;
                  s3 = emit [TextureCreate 1,
                             TextureBind 1 (texUnit1 s2),
                             TextureSetData 1 (image1 s2),
                             TextureSetMinMagFilters 1 Nearest Nearest,
                             TextureSetWrapMode 1 DirectionS Repeat,
                             TextureSetWrapMode 1 DirectionT Repeat] (s2\<lparr>texture1 := Some 1\<rparr>);
                  s4 = emit [TextureCreate 2,
                             TextureBind 2 (texUnit2 s3),
                             TextureSetData 2 (image2 s3),
                             TextureSetMinMagFilters 2 Linear Linear,
                             TextureSetWrapMode 2 DirectionS Repeat,
                             TextureSetWrapMode 2 DirectionT Repeat] (s3\<lparr>texture2 := Some 2\<rparr>)
              in (Inr (), emit [VboRelease, VaoRelease] s4)))"

text \<open>
  The loop \<open>for i, pos in enumerate(self.cubeCoords)\<close> of \<open>CubeGL.paintGL\<close>, from index
  \<open>i\<close> on. A texture that is still \<open>None\<close> raises \<open>AttributeError\<close> at its \<open>bind\<close>.
\<close>

fun CubeGL_draw_loop ::
  "vec3 \<Rightarrow> nat \<Rightarrow> vec3 list \<Rightarrow> 'a CubeGL_scheme \<Rightarrow> (error + unit) \<times> 'a CubeGL_scheme" where
  "CubeGL_draw_loop rotvec i [] self = (Inr (), self)"
| "CubeGL_draw_loop rotvec i (pos # rest) self =
     (let cubeModel = QMatrix4x4_translate pos QMatrix4x4;
          angle = 30 * i;
          cubeModel = QMatrix4x4_rotate (real angle) rotvec cubeModel;
          s1 = emit [SetUniformValue ''model'' (UMatrix cubeModel)] self
      in case texture1 s1 of
           None \<Rightarrow> (Inl AttributeError, s1)
         | Some t1 \<Rightarrow>
             (let s2 = emit [TextureBind t1 (texUnit1 s1)] s1
              in case texture2 s2 of
                   None \<Rightarrow> (Inl AttributeError, s2)
                 | Some t2 \<Rightarrow>
                     (let s3 = emit [TextureBind t2 (texUnit2 s2)] s2;
                          s4 = emit [GlDrawArrays GL_TRIANGLES 0 (length (cubeVertices s3))] s3
                      in CubeGL_draw_loop rotvec (Suc i) rest s4)))"

text \<open>The four \<open>release\<close> calls that end both \<open>paintGL\<close> methods.\<close>

definition release_all :: "'a CubeGL_scheme \<Rightarrow> (error + unit) \<times> 'a CubeGL_scheme" where
  "release_all self =
     (let s1 = emit [VboRelease, ProgramRelease] self
      in case texture1 s1 of
           None \<Rightarrow> (Inl AttributeError, s1)
         | Some t1 \<Rightarrow>
             (let s2 = emit [TextureRelease t1] s1
              in case texture2 s2 of
                   None \<Rightarrow> (Inl AttributeError, s2)
                 | Some t2 \<Rightarrow> (Inr (), emit [TextureRelease t2] s2)))"

definition CubeGL_paintGL :: "'a CubeGL_scheme \<Rightarrow> (error + unit) \<times> 'a CubeGL_scheme" where
  "CubeGL_paintGL self =
     (let s1 = emit [GlClear [GL_COLOR_BUFFER_BIT, GL_DEPTH_BUFFER_BIT],
                     VaoBind,
                     VboBind,
                     ProgramBind] self;
          rotvec = QVector3D 0.7 0.2 0.5
      in case CubeGL_draw_loop rotvec 0 (cubeCoords s1) s1 of
           (Inl e, s2) \<Rightarrow> (Inl e, s2)
         | (Inr u, s2) \<Rightarrow> release_all s2)"

section \<open>EventsGL (06-events)\<close>

text \<open>
  Modelled from the spec: the constructor of \<open>EventsGL\<close> (\<open>glevents.py\<close>) is not among
  the sources, only its methods \<open>turnAround\<close> and \<open>paintGL\<close> are. Its fields are the
  ones these two read: those of \<open>CubeGL\<close>, and \<open>rotateVector\<close>.
\<close>

record EventsGL = CubeGL +
  rotateVector :: vec3

definition EventsGL_turnAround :: "real \<Rightarrow> real \<Rightarrow> EventsGL \<Rightarrow> EventsGL" where
  "EventsGL_turnAround x y self =
     QWidget_update (self\<lparr>camera := lookAround x y True (camera self)\<rparr>)"

text \<open>
  Modelled from the spec: \<open>EventsGL.moveCamera\<close> (\<open>glevents.py\<close>) is not among the
  sources. The spec has the callbacks "forward UI values into a camera object": the
  direction goes to the camera, and the widget is repainted as in \<open>turnAround\<close>.
\<close>

definition EventsGL_moveCamera :: "string \<Rightarrow> EventsGL \<Rightarrow> EventsGL" where
  "EventsGL_moveCamera direction self =
     QWidget_update (self\<lparr>camera := move direction (camera self)\<rparr>)"

text \<open>
  Modelled from the spec: \<open>EventsGL.rotateCubes\<close> (\<open>glevents.py\<close>) is not among the
  sources. The spec has the callbacks forward UI values "into per-frame uniform
  updates": the three values become the \<open>rotateVector\<close> that \<open>paintGL\<close> puts into the
  model uniform of each frame.
\<close>

definition EventsGL_rotateCubes :: "int \<Rightarrow> int \<Rightarrow> int \<Rightarrow> EventsGL \<Rightarrow> EventsGL" where
  "EventsGL_rotateCubes xval yval zval self =
     QWidget_update (self\<lparr>rotateVector := QVector3D (float xval) (float yval) (float zval)\<rparr>)"

fun EventsGL_draw_loop ::
  "nat \<Rightarrow> vec3 list \<Rightarrow> 'a EventsGL_scheme \<Rightarrow> (error + unit) \<times> 'a EventsGL_scheme" where
  "EventsGL_draw_loop i [] self = (Inr (), self)"
| "EventsGL_draw_loop i (pos # rest) self =
     (let cubeModel = QMatrix4x4_translate pos QMatrix4x4;
          angle = 30 * i;
          cubeModel = QMatrix4x4_rotate (real angle) (rotateVector self) cubeModel;
          s1 = emit [SetUniformValue ''model'' (UMatrix cubeModel)] self
      in case texture1 s1 of
           None \<Rightarrow> (Inl AttributeError, s1)
         | Some t1 \<Rightarrow>
             (let s2 = emit [TextureBind t1 0] s1
              in case texture2 s2 of
                   None \<Rightarrow> (Inl AttributeError, s2)
                 | Some t2 \<Rightarrow>
                     (let s3 = emit [TextureBind t2 1] s2;
                          s4 = emit [GlDrawArrays GL_TRIANGLES 0 36] s3
                      in EventsGL_draw_loop (Suc i) rest s4)))"

definition EventsGL_paintGL :: "'a EventsGL_scheme \<Rightarrow> (error + unit) \<times> 'a EventsGL_scheme" where
  "EventsGL_paintGL self =
     (let s1 = emit [GlClear [GL_COLOR_BUFFER_BIT, GL_DEPTH_BUFFER_BIT],
                     VaoBind,
                     VboBind,
                     ProgramBind] self
      in case truediv (width s1) (height s1) of
           Inl e \<Rightarrow> (Inl e, s1)
         | Inr aspect \<Rightarrow>
             (let projectionMatrix = QMatrix4x4_perspective (zoom (camera s1)) aspect 0.2 100.0 QMatrix4x4;
                  s2 = emit [SetUniformValue ''projection'' (UMatrix projectionMatrix)] s1;
                  viewMatrix = UViewMatrix (camera s2);
                  s3 = emit [SetUniformValue ''view'' viewMatrix] s2
              in case EventsGL_draw_loop 0 (cubeCoords s3) s3 of
                   (Inl e, s4) \<Rightarrow> (Inl e, s4)
                 | (Inr u, s4) \<Rightarrow> release_all s4))"

section \<open>Reading a command log\<close>

text \<open>The commands an operation added to the log.\<close>

definition issued :: "'a QOpenGLWidget_scheme \<Rightarrow> 'b QOpenGLWidget_scheme \<Rightarrow> gl_cmd list" where
  "issued before after = drop (length (gl before)) (gl after)"

text \<open>The \<open>glDrawArrays\<close> calls of a log: mode, first index, vertex count.\<close>

fun draw_arrays_calls :: "gl_cmd list \<Rightarrow> (gl_mode \<times> nat \<times> nat) list" where
  "draw_arrays_calls [] = []"
| "draw_arrays_calls (GlDrawArrays m first n # cs) = (m, first, n) # draw_arrays_calls cs"
| "draw_arrays_calls (c # cs) = draw_arrays_calls cs"

text \<open>The values given to the uniform \<open>name\<close>, in order.\<close>

fun uniform_values :: "string \<Rightarrow> gl_cmd list \<Rightarrow> uniform_value list" where
  "uniform_values name [] = []"
| "uniform_values name (SetUniformValue n v # cs) =
     (if n = name then v # uniform_values name cs else uniform_values name cs)"
| "uniform_values name (c # cs) = uniform_values name cs"

text \<open>
  The value of the \<open>model\<close> uniform in force at each \<open>glDrawArrays\<close> call (\<open>None\<close>: not
  set yet), starting from the value \<open>cur\<close>.
\<close>

fun models_at_draws :: "uniform_value option \<Rightarrow> gl_cmd list \<Rightarrow> uniform_value option list" where
  "models_at_draws cur [] = []"
| "models_at_draws cur (SetUniformValue n v # cs) =
     (if n = ''model'' then models_at_draws (Some v) cs else models_at_draws cur cs)"
| "models_at_draws cur (GlDrawArrays m first n # cs) = cur # models_at_draws cur cs"
| "models_at_draws cur (c # cs) = models_at_draws cur cs"

text \<open>
  The contents of the vertex buffer after a log, starting from \<open>cur\<close>:
  \<open>allocate(data, count)\<close> stores the first \<open>count\<close> bytes of the data (four bytes a
  float); no other command of the log writes the buffer.
\<close>

fun vbo_contents :: "real list option \<Rightarrow> gl_cmd list \<Rightarrow> real list option" where
  "vbo_contents cur [] = cur"
| "vbo_contents cur (VboAllocate d n # cs) = vbo_contents (Some (take (n div floatSize) d)) cs"
| "vbo_contents cur (c # cs) = vbo_contents cur cs"

section \<open>EventAppWindow (06-events)\<close>

subsection \<open>Qt sliders and signals\<close>

text \<open>
  The part of Qt's \<open>QAbstractSlider\<close> the window relies on: a slider holds an integer
  value inside its range; \<open>setRange\<close> and \<open>setValue\<close> bound the value into the range.
\<close>

record QSlider =
  minimum :: int
  maximum :: int
  val :: int

definition bound :: "int \<Rightarrow> int \<Rightarrow> int \<Rightarrow> int" where
  "bound lo v hi = max lo (min hi v)"

definition setRange :: "int \<Rightarrow> int \<Rightarrow> QSlider \<Rightarrow> QSlider" where
  "setRange lo hi s =
     (let hi' = max lo hi
      in s\<lparr>minimum := lo, maximum := hi', val := bound lo (val s) hi'\<rparr>)"

datatype button = UpBtn | DownBtn | LeftBtn | RightBtn

datatype slider = CamX | CamY | XSlider | YSlider | ZSlider

datatype signal = Clicked button | ValueChanged slider

datatype slot =
    Slot_moveCameraForward
  | Slot_moveCameraBackward
  | Slot_moveCameraLeft
  | Slot_moveCameraRight
  | Slot_turnCameraX
  | Slot_turnCameraY
  | Slot_rotateCubes

text \<open>
  The window reaches its GL widget only through three methods; the calls it makes are
  kept in order, with their arguments.
\<close>

datatype glwidget_call =
    Call_moveCamera string
  | Call_turnAround real real
  | Call_rotateCubes int int int

record GLWindow =
  camX :: QSlider
  camY :: QSlider
  xSlider :: QSlider
  ySlider :: QSlider
  zSlider :: QSlider
  glWidget :: "glwidget_call list"
  connections :: "(signal \<times> slot) list"

record EventAppWindow = GLWindow +
  lastCamXVal :: int
  lastCamYVal :: int

text \<open>
  Modelled from the spec: the base class \<open>GLWindow\<close> (\<open>tutorials/utils/window.py\<close>) is not
  among the sources. It owns the five sliders, the four buttons and the GL widget the
  spec and the subclass name; the sliders start in any state, nothing is connected and
  no call has reached the GL widget.
\<close>

definition GLWindow_init :: "QSlider \<Rightarrow> QSlider \<Rightarrow> QSlider \<Rightarrow> QSlider \<Rightarrow> QSlider \<Rightarrow> GLWindow" where
  "GLWindow_init cx cy x y z =
     \<lparr>camX = cx, camY = cy, xSlider = x, ySlider = y, zSlider = z,
      glWidget = [], connections = []\<rparr>"

definition connect :: "signal \<Rightarrow> slot \<Rightarrow> 'a GLWindow_scheme \<Rightarrow> 'a GLWindow_scheme" where
  "connect sg sl self = self\<lparr>connections := connections self @ [(sg, sl)]\<rparr>"

subsection \<open>The constructor and the handlers\<close>

definition EventAppWindow_init ::
  "QSlider \<Rightarrow> QSlider \<Rightarrow> QSlider \<Rightarrow> QSlider \<Rightarrow> QSlider \<Rightarrow> EventAppWindow" where
  "EventAppWindow_init cx cy x y z =
     (let s = GLWindow_init cx cy x y z;
          s = s\<lparr>camX := setRange (- 180) 180 (camX s)\<rparr>;
          s = s\<lparr>camY := setRange (- 180) 180 (camY s)\<rparr>;
          s = s\<lparr>xSlider := setRange (- 180) 180 (xSlider s)\<rparr>;
          s = s\<lparr>ySlider := setRange (- 180) 180 (ySlider s)\<rparr>;
          s = s\<lparr>zSlider := setRange (- 180) 180 (zSlider s)\<rparr>;
          s = connect (Clicked UpBtn) Slot_moveCameraForward s;
          s = connect (Clicked DownBtn) Slot_moveCameraBackward s;
          s = connect (Clicked LeftBtn) Slot_moveCameraLeft s;
          s = connect (Clicked RightBtn) Slot_moveCameraRight s;
          s = connect (ValueChanged CamX) Slot_turnCameraX s;
          s = connect (ValueChanged CamY) Slot_turnCameraY s;
          s = connect (ValueChanged XSlider) Slot_rotateCubes s;
          s = connect (ValueChanged YSlider) Slot_rotateCubes s;
          s = connect (ValueChanged ZSlider) Slot_rotateCubes s
      in \<lparr>camX = camX s, camY = camY s, xSlider = xSlider s, ySlider = ySlider s,
          zSlider = zSlider s, glWidget = glWidget s, connections = connections s,
          lastCamXVal = val (camX s),
          lastCamYVal = val (camY s)\<rparr>)"

definition moveGLCamera :: "string \<Rightarrow> EventAppWindow \<Rightarrow> EventAppWindow" where
  "moveGLCamera direction self = self\<lparr>glWidget := glWidget self @ [Call_moveCamera direction]\<rparr>"

definition moveCameraForward :: "EventAppWindow \<Rightarrow> EventAppWindow" where
  "moveCameraForward self = moveGLCamera ''forward'' self"

definition moveCameraBackward :: "EventAppWindow \<Rightarrow> EventAppWindow" where
  "moveCameraBackward self = moveGLCamera ''backward'' self"

definition moveCameraLeft :: "EventAppWindow \<Rightarrow> EventAppWindow" where
  "moveCameraLeft self = moveGLCamera ''left'' self"

definition moveCameraRight :: "EventAppWindow \<Rightarrow> EventAppWindow" where
  "moveCameraRight self = moveGLCamera ''right'' self"

definition turnCameraX :: "int \<Rightarrow> EventAppWindow \<Rightarrow> EventAppWindow" where
  "turnCameraX newVal self =
     (let offsetx = newVal - lastCamXVal self;
          valy = val (camY self) - lastCamYVal self;
          s = self\<lparr>glWidget := glWidget self @ [Call_turnAround (float offsetx) (float valy)]\<rparr>
      in s\<lparr>lastCamXVal := newVal\<rparr>)"

definition turnCameraY :: "int \<Rightarrow> EventAppWindow \<Rightarrow> EventAppWindow" where
  "turnCameraY newVal self =
     (let offsety = newVal - lastCamYVal self;
          valx = val (camX self) - lastCamXVal self;
          s = self\<lparr>glWidget := glWidget self @ [Call_turnAround (float valx) (float offsety)]\<rparr>
      in s\<lparr>lastCamYVal := newVal\<rparr>)"

definition rotateCubes :: "EventAppWindow \<Rightarrow> EventAppWindow" where
  "rotateCubes self =
     (let rx = val (xSlider self);
          ry = val (ySlider self);
          rz = val (zSlider self)
      in self\<lparr>glWidget := glWidget self @ [Call_rotateCubes rx ry rz]\<rparr>)"

subsection \<open>Delivering signals\<close>

text \<open>
  A slot receives the argument of the signal if it takes one: \<open>valueChanged\<close> carries
  the new value, \<open>clicked\<close> the flag \<open>checked\<close> (\<open>False\<close>, the int 0, for a push button).
\<close>

fun call_slot :: "slot \<Rightarrow> int \<Rightarrow> EventAppWindow \<Rightarrow> EventAppWindow" where
  "call_slot Slot_moveCameraForward arg self = moveCameraForward self"
| "call_slot Slot_moveCameraBackward arg self = moveCameraBackward self"
| "call_slot Slot_moveCameraLeft arg self = moveCameraLeft self"
| "call_slot Slot_moveCameraRight arg self = moveCameraRight self"
| "call_slot Slot_turnCameraX arg self = turnCameraX arg self"
| "call_slot Slot_turnCameraY arg self = turnCameraY arg self"
| "call_slot Slot_rotateCubes arg self = rotateCubes self"

text \<open>Emitting a signal calls the slots connected to it, in the order of connection.\<close>

fun emit_signal ::
  "signal \<Rightarrow> int \<Rightarrow> (signal \<times> slot) list \<Rightarrow> EventAppWindow \<Rightarrow> EventAppWindow" where
  "emit_signal sg arg [] self = self"
| "emit_signal sg arg ((sg', sl) # conns) self =
     emit_signal sg arg conns (if sg' = sg then call_slot sl arg self else self)"

definition click :: "button \<Rightarrow> EventAppWindow \<Rightarrow> EventAppWindow" where
  "click b self = emit_signal (Clicked b) 0 (connections self) self"

fun get_slider :: "slider \<Rightarrow> EventAppWindow \<Rightarrow> QSlider" where
  "get_slider CamX self = camX self"
| "get_slider CamY self = camY self"
| "get_slider XSlider self = xSlider self"
| "get_slider YSlider self = ySlider self"
| "get_slider ZSlider self = zSlider self"

fun put_slider :: "slider \<Rightarrow> QSlider \<Rightarrow> EventAppWindow \<Rightarrow> EventAppWindow" where
  "put_slider CamX s self = self\<lparr>camX := s\<rparr>"
| "put_slider CamY s self = self\<lparr>camY := s\<rparr>"
| "put_slider XSlider s self = self\<lparr>xSlider := s\<rparr>"
| "put_slider YSlider s self = self\<lparr>ySlider := s\<rparr>"
| "put_slider ZSlider s self = self\<lparr>zSlider := s\<rparr>"

text \<open>
  \<open>QAbstractSlider.setValue\<close>, which every move of a slider goes through: the value is
  bounded into the range, and \<open>valueChanged\<close> is emitted only when the value changes.
\<close>

definition setValue :: "slider \<Rightarrow> int \<Rightarrow> EventAppWindow \<Rightarrow> EventAppWindow" where
  "setValue name v self =
     (let s = get_slider name self;
          v' = bound (minimum s) v (maximum s)
      in if v' = val s then self
         else (let self1 = put_slider name (s\<lparr>val := v'\<rparr>) self
               in emit_signal (ValueChanged name) v' (connections self1) self1))"

datatype ui_event = Click button | Move slider int

fun handle_event :: "ui_event \<Rightarrow> EventAppWindow \<Rightarrow> EventAppWindow" where
  "handle_event (Click b) self = click b self"
| "handle_event (Move name v) self = setValue name v self"

definition run_events :: "ui_event list \<Rightarrow> EventAppWindow \<Rightarrow> EventAppWindow" where
  "run_events evs self = foldl (\<lambda>w ev. handle_event ev w) self evs"

text \<open>The calls an operation of the window added for the GL widget.\<close>

definition new_calls :: "EventAppWindow \<Rightarrow> EventAppWindow \<Rightarrow> glwidget_call list" where
  "new_calls before after = drop (length (glWidget before)) (glWidget after)"

subsection \<open>The GL widget of the application is an EventsGL\<close>

fun EventsGL_call :: "glwidget_call \<Rightarrow> EventsGL \<Rightarrow> EventsGL" where
  "EventsGL_call (Call_moveCamera direction) g = EventsGL_moveCamera direction g"
| "EventsGL_call (Call_turnAround x y) g = EventsGL_turnAround x y g"
| "EventsGL_call (Call_rotateCubes rx ry rz) g = EventsGL_rotateCubes rx ry rz g"

definition EventsGL_calls :: "glwidget_call list \<Rightarrow> EventsGL \<Rightarrow> EventsGL" where
  "EventsGL_calls cs g = foldl (\<lambda>g c. EventsGL_call c g) g cs"

subsection \<open>Ranges of the forwarded values\<close>

definition in_range :: "int \<Rightarrow> int \<Rightarrow> bool" where
  "in_range r v = (- r \<le> v \<and> v \<le> r)"

definition real_in_range :: "real \<Rightarrow> real \<Rightarrow> bool" where
  "real_in_range r v = (- r \<le> v \<and> v \<le> r)"

text \<open>
  A call forwards values of magnitude at most \<open>r\<close> to \<open>turnAround\<close> and at most \<open>180\<close>
  to \<open>rotateCubes\<close>.
\<close>

fun call_within :: "real \<Rightarrow> glwidget_call \<Rightarrow> bool" where
  "call_within r (Call_moveCamera d) = True"
| "call_within r (Call_turnAround x y) = (real_in_range r x \<and> real_in_range r y)"
| "call_within r (Call_rotateCubes rx ry rz) = (in_range 180 rx \<and> in_range 180 ry \<and> in_range 180 rz)"

definition sliders_in_range :: "EventAppWindow \<Rightarrow> bool" where
  "sliders_in_range w =
     (in_range 180 (val (camX w)) \<and> in_range 180 (val (camY w)) \<and>
      in_range 180 (val (xSlider w)) \<and> in_range 180 (val (ySlider w)) \<and>
      in_range 180 (val (zSlider w)))"

text \<open>The x and y arguments of the \<open>turnAround\<close> calls in a list of calls.\<close>

fun turn_xs :: "glwidget_call list \<Rightarrow> real list" where
  "turn_xs [] = []"
| "turn_xs (Call_turnAround x y # cs) = x # turn_xs cs"
| "turn_xs (c # cs) = turn_xs cs"

fun turn_ys :: "glwidget_call list \<Rightarrow> real list" where
  "turn_ys [] = []"
| "turn_ys (Call_turnAround x y # cs) = y # turn_ys cs"
| "turn_ys (c # cs) = turn_ys cs"

text \<open>Delivering a sequence of values to one of the two camera handlers.\<close>

definition turnCameraX_seq :: "int list \<Rightarrow> EventAppWindow \<Rightarrow> EventAppWindow" where
  "turnCameraX_seq vs self = foldl (\<lambda>w v. turnCameraX v w) self vs"

definition turnCameraY_seq :: "int list \<Rightarrow> EventAppWindow \<Rightarrow> EventAppWindow" where
  "turnCameraY_seq vs self = foldl (\<lambda>w v. turnCameraY v w) self vs"

text \<open>The differences \<open>v1 - v0, v2 - v1, ...\<close> of a sequence that starts at \<open>v0\<close>.\<close>

fun deltas :: "int \<Rightarrow> int list \<Rightarrow> int list" where
  "deltas v0 [] = []"
| "deltas v0 (v # vs) = (v - v0) # deltas v vs"

section \<open>Auxiliary definitions for the proofs\<close>

text \<open>
  Commands that neither write the vertex buffer nor set a uniform other than \<open>model\<close>.
\<close>

fun quiet :: "gl_cmd \<Rightarrow> bool" where
  "quiet (VboAllocate d n) = False"
| "quiet (SetUniformValue n v) = (n = ''model'')"
| "quiet c = True"

text \<open>
  Concrete inputs on which the theorems with hypotheses are instantiated: a camera, and
  an \<open>EventsGL\<close> widget of 800 by 600 pixels with the fields of \<open>CubeGL\<close>'s constructor,
  both textures created and the rotation vector of \<open>CubeGL.paintGL\<close>.
\<close>

definition example_camera :: camera where
  "example_camera =
     \<lparr>position = QVector3D 0 0 0, front = QVector3D 0 0 (- 1), up = QVector3D 0 1 0,
      right = QVector3D 1 0 0, yaw = - 90, pitch = 0, zoom = 45, calls = []\<rparr>"

definition example_EventsGL :: EventsGL where
  "example_EventsGL =
     CubeGL.extend ((CubeGL_init example_camera 800 600)\<lparr>texture1 := Some 1, texture2 := Some 2\<rparr>)
       (EventsGL.fields (QVector3D 0.7 0.2 0.5))"

text \<open>
  The connections the constructor of \<open>EventAppWindow\<close> makes, and the state every
  reachable window is in: those connections, every slider ranging over -180..180, and
  the two \<open>last\<close> fields equal to the values of \<open>camX\<close> and \<open>camY\<close>.
\<close>

definition wired :: "(signal \<times> slot) list" where
  "wired =
     [(Clicked UpBtn, Slot_moveCameraForward),
      (Clicked DownBtn, Slot_moveCameraBackward),
      (Clicked LeftBtn, Slot_moveCameraLeft),
      (Clicked RightBtn, Slot_moveCameraRight),
      (ValueChanged CamX, Slot_turnCameraX),
      (ValueChanged CamY, Slot_turnCameraY),
      (ValueChanged XSlider, Slot_rotateCubes),
      (ValueChanged YSlider, Slot_rotateCubes),
      (ValueChanged ZSlider, Slot_rotateCubes)]"

definition slider_ok :: "QSlider \<Rightarrow> bool" where
  "slider_ok s = (minimum s = - 180 \<and> maximum s = 180 \<and> in_range 180 (val s))"

definition window_ok :: "EventAppWindow \<Rightarrow> bool" where
  "window_ok w =
     (connections w = wired \<and>
      slider_ok (camX w) \<and> slider_ok (camY w) \<and>
      slider_ok (xSlider w) \<and> slider_ok (ySlider w) \<and> slider_ok (zSlider w) \<and>
      lastCamXVal w = val (camX w) \<and> lastCamYVal w = val (camY w))"

text \<open>
  Concrete inputs for the window: sliders with Qt's defaults (range 0..99, value 0) and
  the window constructed over them.
\<close>

definition example_slider :: QSlider where
  "example_slider = \<lparr>minimum = 0, maximum = 99, val = 0\<rparr>"

definition example_window :: EventAppWindow where
  "example_window =
     EventAppWindow_init example_slider example_slider example_slider example_slider example_slider"

section \<open>Lemmas about the command log\<close>

lemma gl_emit: "gl (emit cs s) = gl s @ cs"
  by (simp add: emit_def)

lemma emit_emit: "emit cs (emit bs s) = emit (bs @ cs) s"
  by (simp add: emit_def)

lemma emit_fields:
  "width (emit cs s) = width s" "height (emit cs s) = height s"
  "updates (emit cs s) = updates s"
  by (simp_all add: emit_def)

lemma emit_CubeGL_fields:
  "camera (emit cs s) = camera s" "texture1 (emit cs s) = texture1 s"
  "texture2 (emit cs s) = texture2 s" "texUnit1 (emit cs s) = texUnit1 s"
  "texUnit2 (emit cs s) = texUnit2 s" "cubeVertices (emit cs s) = cubeVertices s"
  "cubeCoords (emit cs s) = cubeCoords s" "image1 (emit cs s) = image1 s"
  "image2 (emit cs s) = image2 s"
  by (simp_all add: emit_def)

lemma emit_rotateVector: "rotateVector (emit cs s) = rotateVector s"
  by (simp add: emit_def)

lemma issued_emit: "issued s (emit cs s) = cs"
  by (simp add: issued_def emit_def)

lemma vbo_contents_append:
  "vbo_contents cur (as @ bs) = vbo_contents (vbo_contents cur as) bs"
  by (induction cur as rule: vbo_contents.induct) simp_all

lemma vbo_contents_quiet: "list_all quiet cs \<Longrightarrow> vbo_contents cur cs = cur"
  by (induction cur cs rule: vbo_contents.induct) simp_all

lemma uniform_values_append:
  "uniform_values n (as @ bs) = uniform_values n as @ uniform_values n bs"
  by (induction n as rule: uniform_values.induct) simp_all

lemma uniform_values_quiet: "list_all quiet cs \<Longrightarrow> uniform_values ''projection'' cs = []"
  by (induction "''projection''" cs rule: uniform_values.induct) auto

lemma draw_arrays_calls_append:
  "draw_arrays_calls (as @ bs) = draw_arrays_calls as @ draw_arrays_calls bs"
  by (induction as rule: draw_arrays_calls.induct) simp_all

lemma CubeGL_draw_loop_frame:
  "\<exists>cs. snd (CubeGL_draw_loop rv i ps s) = emit cs s \<and> list_all quiet cs"
proof (induction ps arbitrary: i s)
  case Nil
  show ?case by (intro exI[of _ "[]"]) (simp add: emit_def)
next
  case (Cons pos rest)
  show ?case
  proof (cases "texture1 s")
    case None
    then show ?thesis
      by (intro exI[of _ "[SetUniformValue ''model'' (UMatrix (QMatrix4x4_rotate (real (30 * i)) rv (QMatrix4x4_translate pos QMatrix4x4)))]"])
         (simp add: Let_def emit_CubeGL_fields)
  next
    case (Some t1)
    show ?thesis
    proof (cases "texture2 s")
      case None
      with Some show ?thesis
        by (intro exI[of _ "[SetUniformValue ''model'' (UMatrix (QMatrix4x4_rotate (real (30 * i)) rv (QMatrix4x4_translate pos QMatrix4x4))), TextureBind t1 (texUnit1 s)]"])
           (simp add: Let_def emit_CubeGL_fields emit_emit)
    next
      case (Some t2)
      let ?b = "[SetUniformValue ''model'' (UMatrix (QMatrix4x4_rotate (real (30 * i)) rv (QMatrix4x4_translate pos QMatrix4x4))),
                 TextureBind t1 (texUnit1 s), TextureBind t2 (texUnit2 s),
                 GlDrawArrays GL_TRIANGLES 0 (length (cubeVertices s))]"
      from Cons.IH[of "Suc i" "emit ?b s"] obtain cs where
        cs: "snd (CubeGL_draw_loop rv (Suc i) rest (emit ?b s)) = emit cs (emit ?b s)" "list_all quiet cs"
        by blast
      have "snd (CubeGL_draw_loop rv i (pos # rest) s) = emit (?b @ cs) s"
        using cs(1) \<open>texture1 s = Some t1\<close> Some
        by (simp add: Let_def emit_CubeGL_fields emit_emit)
      moreover have "list_all quiet (?b @ cs)" using cs(2) by simp
      ultimately show ?thesis by blast
    qed
  qed
qed

lemma EventsGL_draw_loop_frame:
  "\<exists>cs. snd (EventsGL_draw_loop i ps s) = emit cs s \<and> list_all quiet cs"
proof (induction ps arbitrary: i s)
  case Nil
  show ?case by (intro exI[of _ "[]"]) (simp add: emit_def)
next
  case (Cons pos rest)
  let ?m = "SetUniformValue ''model'' (UMatrix (QMatrix4x4_rotate (real (30 * i)) (rotateVector s) (QMatrix4x4_translate pos QMatrix4x4)))"
  show ?case
  proof (cases "texture1 s")
    case None
    then show ?thesis
      by (intro exI[of _ "[?m]"]) (simp add: Let_def emit_CubeGL_fields)
  next
    case (Some t1)
    show ?thesis
    proof (cases "texture2 s")
      case None
      with Some show ?thesis
        by (intro exI[of _ "[?m, TextureBind t1 0]"])
           (simp add: Let_def emit_CubeGL_fields emit_emit)
    next
      case (Some t2)
      let ?b = "[?m, TextureBind t1 0, TextureBind t2 1, GlDrawArrays GL_TRIANGLES 0 36]"
      from Cons.IH[of "Suc i" "emit ?b s"] obtain cs where
        cs: "snd (EventsGL_draw_loop (Suc i) rest (emit ?b s)) = emit cs (emit ?b s)" "list_all quiet cs"
        by blast
      have "snd (EventsGL_draw_loop i (pos # rest) s) = emit (?b @ cs) s"
        using cs(1) \<open>texture1 s = Some t1\<close> Some
        by (simp add: Let_def emit_CubeGL_fields emit_emit)
      moreover have "list_all quiet (?b @ cs)" using cs(2) by simp
      ultimately show ?thesis by blast
    qed
  qed
qed

lemma release_all_frame:
  "\<exists>cs. snd (release_all s) = emit cs s \<and> list_all quiet cs"
proof (cases "texture1 s")
  case None
  then show ?thesis
    by (intro exI[of _ "[VboRelease, ProgramRelease]"])
       (simp add: release_all_def Let_def emit_CubeGL_fields)
next
  case (Some t1)
  show ?thesis
  proof (cases "texture2 s")
    case None
    with Some show ?thesis
      by (intro exI[of _ "[VboRelease, ProgramRelease, TextureRelease t1]"])
         (simp add: release_all_def Let_def emit_CubeGL_fields emit_emit)
  next
    case (Some t2)
    with \<open>texture1 s = Some t1\<close> show ?thesis
      by (intro exI[of _ "[VboRelease, ProgramRelease, TextureRelease t1, TextureRelease t2]"])
         (simp add: release_all_def Let_def emit_CubeGL_fields emit_emit)
  qed
qed

lemma CubeGL_paintGL_frame:
  "\<exists>cs. snd (CubeGL_paintGL s) = emit cs s \<and> list_all quiet cs"
proof -
  let ?pre = "[GlClear [GL_COLOR_BUFFER_BIT, GL_DEPTH_BUFFER_BIT], VaoBind, VboBind, ProgramBind]"
  let ?s1 = "emit ?pre s"
  let ?rv = "QVector3D 0.7 0.2 0.5"
  obtain r s2 where loop: "CubeGL_draw_loop ?rv 0 (cubeCoords s) ?s1 = (r, s2)"
    by (cases "CubeGL_draw_loop ?rv 0 (cubeCoords s) ?s1") blast
  from CubeGL_draw_loop_frame[of ?rv 0 "cubeCoords s" ?s1] loop
  obtain cs where cs: "s2 = emit cs ?s1" "list_all quiet cs" by auto
  show ?thesis
  proof (cases r)
    case (Inl e)
    then have "snd (CubeGL_paintGL s) = emit (?pre @ cs) s"
      using loop cs(1) by (simp add: CubeGL_paintGL_def Let_def emit_CubeGL_fields emit_emit)
    moreover have "list_all quiet (?pre @ cs)" using cs(2) by simp
    ultimately show ?thesis by blast
  next
    case (Inr u)
    from release_all_frame[of s2] obtain ds where
      ds: "snd (release_all s2) = emit ds s2" "list_all quiet ds" by blast
    from Inr have "snd (CubeGL_paintGL s) = emit (?pre @ cs @ ds) s"
      using loop cs(1) ds(1) by (simp add: CubeGL_paintGL_def Let_def emit_CubeGL_fields emit_emit)
    moreover have "list_all quiet (?pre @ cs @ ds)" using cs(2) ds(2) by simp
    ultimately show ?thesis by blast
  qed
qed

lemma EventsGL_paintGL_unfold:
  assumes "height s \<noteq> 0"
  shows "EventsGL_paintGL s =
      (case EventsGL_draw_loop 0 (cubeCoords s)
              (emit ([GlClear [GL_COLOR_BUFFER_BIT, GL_DEPTH_BUFFER_BIT], VaoBind, VboBind, ProgramBind] @
                     [SetUniformValue ''projection''
                        (UMatrix (QMatrix4x4_perspective (zoom (camera s))
                           (real_of_int (width s) / real_of_int (height s)) 0.2 100.0 QMatrix4x4)),
                      SetUniformValue ''view'' (UViewMatrix (camera s))]) s) of
         (Inl e, s4) \<Rightarrow> (Inl e, s4) | (Inr u, s4) \<Rightarrow> release_all s4)"
  using assms
  by (simp add: EventsGL_paintGL_def Let_def truediv_def emit_fields emit_CubeGL_fields emit_emit)

lemma EventsGL_paintGL_frame:
  "\<exists>cs. snd (EventsGL_paintGL s) =
          emit ([GlClear [GL_COLOR_BUFFER_BIT, GL_DEPTH_BUFFER_BIT], VaoBind, VboBind, ProgramBind] @
                (if height s = 0 then []
                 else [SetUniformValue ''projection''
                         (UMatrix (QMatrix4x4_perspective (zoom (camera s))
                            (real_of_int (width s) / real_of_int (height s)) 0.2 100.0 QMatrix4x4)),
                       SetUniformValue ''view'' (UViewMatrix (camera s))] @ cs)) s
        \<and> list_all quiet cs"
proof (cases "height s = 0")
  case True
  then show ?thesis
    by (intro exI[of _ "[]"]) (simp add: EventsGL_paintGL_def Let_def truediv_def emit_fields)
next
  case False
  let ?pre = "[GlClear [GL_COLOR_BUFFER_BIT, GL_DEPTH_BUFFER_BIT], VaoBind, VboBind, ProgramBind]"
  let ?pv = "[SetUniformValue ''projection''
                (UMatrix (QMatrix4x4_perspective (zoom (camera s))
                   (real_of_int (width s) / real_of_int (height s)) 0.2 100.0 QMatrix4x4)),
              SetUniformValue ''view'' (UViewMatrix (camera s))]"
  let ?s3 = "emit (?pre @ ?pv) s"
  obtain r s4 where loop: "EventsGL_draw_loop 0 (cubeCoords s) ?s3 = (r, s4)"
    by (cases "EventsGL_draw_loop 0 (cubeCoords s) ?s3") blast
  from EventsGL_draw_loop_frame[of 0 "cubeCoords s" ?s3] loop
  obtain cs where cs: "s4 = emit cs ?s3" "list_all quiet cs" by auto
  note unfold = EventsGL_paintGL_unfold[OF False]
  show ?thesis
  proof (cases r)
    case (Inl e)
    then have "snd (EventsGL_paintGL s) = emit (?pre @ ?pv @ cs) s"
      using loop cs(1) by (simp add: unfold emit_emit)
    then show ?thesis using cs(2) False by (intro exI[of _ cs]) simp
  next
    case (Inr u)
    from release_all_frame[of s4] obtain ds where
      ds: "snd (release_all s4) = emit ds s4" "list_all quiet ds" by blast
    from Inr have "snd (EventsGL_paintGL s) = emit (?pre @ ?pv @ cs @ ds) s"
      using loop cs(1) ds(1) by (simp add: unfold emit_emit)
    moreover have "list_all quiet (cs @ ds)" using cs(2) ds(2) by simp
    ultimately show ?thesis using False by (intro exI[of _ "cs @ ds"]) simp
  qed
qed

lemma CubeGL_draw_loop_status: "fst (CubeGL_draw_loop rv i ps s) \<noteq> Inl ZeroDivisionError"
  by (induction ps arbitrary: i s) (simp_all add: Let_def split: option.splits)

lemma EventsGL_draw_loop_status: "fst (EventsGL_draw_loop i ps s) \<noteq> Inl ZeroDivisionError"
  by (induction ps arbitrary: i s) (simp_all add: Let_def split: option.splits)

lemma release_all_status: "fst (release_all s) \<noteq> Inl ZeroDivisionError"
  by (simp add: release_all_def Let_def split: option.splits)

lemma EventsGL_paintGL_status:
  assumes "height s \<noteq> 0"
  shows "fst (EventsGL_paintGL s) \<noteq> Inl ZeroDivisionError"
proof -
  let ?s3 = "emit ([GlClear [GL_COLOR_BUFFER_BIT, GL_DEPTH_BUFFER_BIT], VaoBind, VboBind, ProgramBind] @
                   [SetUniformValue ''projection''
                      (UMatrix (QMatrix4x4_perspective (zoom (camera s))
                         (real_of_int (width s) / real_of_int (height s)) 0.2 100.0 QMatrix4x4)),
                    SetUniformValue ''view'' (UViewMatrix (camera s))]) s"
  obtain r s4 where loop: "EventsGL_draw_loop 0 (cubeCoords s) ?s3 = (r, s4)"
    by (cases "EventsGL_draw_loop 0 (cubeCoords s) ?s3") blast
  have r: "r \<noteq> Inl ZeroDivisionError"
    using EventsGL_draw_loop_status[of 0 "cubeCoords s" ?s3] loop by simp
  show ?thesis
  proof (cases r)
    case (Inl e)
    then show ?thesis using r loop by (simp add: EventsGL_paintGL_unfold[OF assms])
  next
    case (Inr u)
    then show ?thesis using loop release_all_status[of s4]
      by (simp add: EventsGL_paintGL_unfold[OF assms])
  qed
qed

lemma CubeGL_draw_loop_ok:
  "texture1 s = Some t1 \<Longrightarrow> texture2 s = Some t2 \<Longrightarrow>
   CubeGL_draw_loop rv i ps s =
     (Inr (), emit (concat (map (\<lambda>(k, pos).
        [SetUniformValue ''model'' (UMatrix (QMatrix4x4_rotate (real (30 * k)) rv (QMatrix4x4_translate pos QMatrix4x4))),
         TextureBind t1 (texUnit1 s), TextureBind t2 (texUnit2 s),
         GlDrawArrays GL_TRIANGLES 0 (length (cubeVertices s))]) (zip [i..<i + length ps] ps))) s)"
proof (induction ps arbitrary: i s)
  case Nil
  then show ?case by (simp add: emit_def)
next
  case (Cons pos rest)
  have upt: "[i..<Suc (i + length rest)] = i # [Suc i..<Suc (i + length rest)]"
    by (rule upt_conv_Cons) simp
  show ?case using Cons.prems
    by (simp add: Let_def emit_CubeGL_fields Cons.IH upt emit_emit del: upt_Suc)
qed

lemma EventsGL_draw_loop_ok:
  "texture1 s = Some t1 \<Longrightarrow> texture2 s = Some t2 \<Longrightarrow>
   EventsGL_draw_loop i ps s =
     (Inr (), emit (concat (map (\<lambda>(k, pos).
        [SetUniformValue ''model'' (UMatrix (QMatrix4x4_rotate (real (30 * k)) (rotateVector s) (QMatrix4x4_translate pos QMatrix4x4))),
         TextureBind t1 0, TextureBind t2 1,
         GlDrawArrays GL_TRIANGLES 0 36]) (zip [i..<i + length ps] ps))) s)"
proof (induction ps arbitrary: i s)
  case Nil
  then show ?case by (simp add: emit_def)
next
  case (Cons pos rest)
  have upt: "[i..<Suc (i + length rest)] = i # [Suc i..<Suc (i + length rest)]"
    by (rule upt_conv_Cons) simp
  show ?case using Cons.prems
    by (simp add: Let_def emit_CubeGL_fields emit_rotateVector Cons.IH upt emit_emit del: upt_Suc)
qed

lemma map2_nth: "map (\<lambda>(k, x). f k x) (zip [0..<length xs] xs) = map (\<lambda>i. f i (xs ! i)) [0..<length xs]"
  by (rule nth_equalityI) simp_all

lemma models_at_draws_cubes:
  assumes "\<And>cur. models_at_draws cur tail = []"
  shows "models_at_draws cur (concat (map (\<lambda>(k, pos).
           [SetUniformValue ''model'' (m k pos), TextureBind t1 u1, TextureBind t2 u2,
            GlDrawArrays GL_TRIANGLES 0 n]) zs) @ tail) = map (\<lambda>(k, pos). Some (m k pos)) zs"
  using assms by (induction zs arbitrary: cur) auto

lemma uniform_model_cubes:
  assumes "uniform_values ''model'' tail = []"
  shows "uniform_values ''model'' (concat (map (\<lambda>(k, pos).
           [SetUniformValue ''model'' (m k pos), TextureBind t1 u1, TextureBind t2 u2,
            GlDrawArrays GL_TRIANGLES 0 n]) zs) @ tail) = map (\<lambda>(k, pos). m k pos) zs"
  using assms by (induction zs) auto

lemma draw_arrays_cubes:
  assumes "draw_arrays_calls tail = []"
  shows "draw_arrays_calls (concat (map (\<lambda>(k, pos).
           [SetUniformValue ''model'' (m k pos), TextureBind t1 u1, TextureBind t2 u2,
            GlDrawArrays GL_TRIANGLES 0 n]) zs) @ tail) = replicate (length zs) (GL_TRIANGLES, 0, n)"
  using assms by (induction zs) auto

lemma CubeGL_paintGL_ok:
  assumes "texture1 s = Some t1" "texture2 s = Some t2"
  shows "CubeGL_paintGL s =
     (Inr (), emit ([GlClear [GL_COLOR_BUFFER_BIT, GL_DEPTH_BUFFER_BIT], VaoBind, VboBind, ProgramBind] @
        concat (map (\<lambda>(k, pos).
          [SetUniformValue ''model'' (UMatrix (QMatrix4x4_rotate (real (30 * k)) (QVector3D 0.7 0.2 0.5)
              (QMatrix4x4_translate pos QMatrix4x4))),
           TextureBind t1 (texUnit1 s), TextureBind t2 (texUnit2 s),
           GlDrawArrays GL_TRIANGLES 0 (length (cubeVertices s))])
          (zip [0..<length (cubeCoords s)] (cubeCoords s))) @
        [VboRelease, ProgramRelease, TextureRelease t1, TextureRelease t2]) s)"
proof -
  let ?s1 = "emit [GlClear [GL_COLOR_BUFFER_BIT, GL_DEPTH_BUFFER_BIT], VaoBind, VboBind, ProgramBind] s"
  have t: "texture1 ?s1 = Some t1" "texture2 ?s1 = Some t2"
    using assms by (simp_all add: emit_CubeGL_fields)
  show ?thesis
    unfolding CubeGL_paintGL_def Let_def CubeGL_draw_loop_ok[OF t]
    using assms
    by (simp add: release_all_def Let_def emit_CubeGL_fields emit_emit)
qed

lemma EventsGL_paintGL_ok:
  assumes "texture1 s = Some t1" "texture2 s = Some t2" "height s \<noteq> 0"
  shows "EventsGL_paintGL s =
     (Inr (), emit ([GlClear [GL_COLOR_BUFFER_BIT, GL_DEPTH_BUFFER_BIT], VaoBind, VboBind, ProgramBind] @
        [SetUniformValue ''projection''
            (UMatrix (QMatrix4x4_perspective (zoom (camera s))
               (real_of_int (width s) / real_of_int (height s)) 0.2 100.0 QMatrix4x4)),
         SetUniformValue ''view'' (UViewMatrix (camera s))] @
        concat (map (\<lambda>(k, pos).
          [SetUniformValue ''model'' (UMatrix (QMatrix4x4_rotate (real (30 * k)) (rotateVector s)
              (QMatrix4x4_translate pos QMatrix4x4))),
           TextureBind t1 0, TextureBind t2 1,
           GlDrawArrays GL_TRIANGLES 0 36])
          (zip [0..<length (cubeCoords s)] (cubeCoords s))) @
        [VboRelease, ProgramRelease, TextureRelease t1, TextureRelease t2]) s)"
proof -
  let ?s3 = "emit ([GlClear [GL_COLOR_BUFFER_BIT, GL_DEPTH_BUFFER_BIT], VaoBind, VboBind, ProgramBind] @
                   [SetUniformValue ''projection''
                      (UMatrix (QMatrix4x4_perspective (zoom (camera s))
                         (real_of_int (width s) / real_of_int (height s)) 0.2 100.0 QMatrix4x4)),
                    SetUniformValue ''view'' (UViewMatrix (camera s))]) s"
  have t: "texture1 ?s3 = Some t1" "texture2 ?s3 = Some t2"
    using assms by (simp_all add: emit_CubeGL_fields)
  show ?thesis
    unfolding EventsGL_paintGL_unfold[OF assms(3)] EventsGL_draw_loop_ok[OF t]
    using assms(1,2)
    by (simp add: release_all_def Let_def emit_CubeGL_fields emit_rotateVector emit_emit)
qed

lemma example_EventsGL_fields:
  "height example_EventsGL = 600" "width example_EventsGL = 800"
  "texture1 example_EventsGL = Some 1" "texture2 example_EventsGL = Some 2"
  "cubeCoords example_EventsGL = cubeCoords (CubeGL_init example_camera 800 600)"
  by (simp_all add: example_EventsGL_def CubeGL_init_def CubeGL.defs EventsGL.defs
      QOpenGLWidget.defs)

lemma CubeGL_initializeGL_eq:
  "CubeGL_initializeGL s =
     (if height s = 0 then
        (Inl ZeroDivisionError,
         emit [ContextCreate, ConnectAboutToBeDestroyed, InitializeOpenGLFunctions,
               GlClearColor 0.0 0.4 0.4 0, GlEnable GL_DEPTH_TEST, GlEnable GL_TEXTURE_2D,
               ProgramCreate, AddShader Vertex ''cube'', AddShader Fragment ''cube'',
               BindAttributeLocation ''aPos'' 0, BindAttributeLocation ''aTexCoord'' 1,
               ProgramLink, ProgramBind] s)
      else
        (Inr (),
         emit [ContextCreate, ConnectAboutToBeDestroyed, InitializeOpenGLFunctions,
               GlClearColor 0.0 0.4 0.4 0, GlEnable GL_DEPTH_TEST, GlEnable GL_TEXTURE_2D,
               ProgramCreate, AddShader Vertex ''cube'', AddShader Fragment ''cube'',
               BindAttributeLocation ''aPos'' 0, BindAttributeLocation ''aTexCoord'' 1,
               ProgramLink, ProgramBind,
               SetUniformValue ''projection''
                 (UMatrix (QMatrix4x4_perspective (zoom (camera s))
                    (real_of_int (width s) / real_of_int (height s)) 0.2 100.0 QMatrix4x4)),
               SetUniformValue ''view'' (UViewMatrix (camera s)),
               SetUniformValue ''myTexture1'' (UInt (texUnit1 s)),
               SetUniformValue ''myTexture2'' (UInt (texUnit2 s)),
               VboCreate, VboBind,
               VboAllocate (cubeVertices s) (floatSize * length (cubeVertices s)),
               VaoCreate, VaoBind,
               GlEnableVertexAttribArray 0,
               GlVertexAttribPointer 0 3 GL_FLOAT False (5 * floatSize) 0,
               GlEnableVertexAttribArray 1,
               GlVertexAttribPointer 1 2 GL_FLOAT False (5 * floatSize) (3 * floatSize),
               TextureCreate 1, TextureBind 1 (texUnit1 s), TextureSetData 1 (image1 s),
               TextureSetMinMagFilters 1 Nearest Nearest,
               TextureSetWrapMode 1 DirectionS Repeat, TextureSetWrapMode 1 DirectionT Repeat,
               TextureCreate 2, TextureBind 2 (texUnit2 s), TextureSetData 2 (image2 s),
               TextureSetMinMagFilters 2 Linear Linear,
               TextureSetWrapMode 2 DirectionS Repeat, TextureSetWrapMode 2 DirectionT Repeat,
               VboRelease, VaoRelease]
           (s\<lparr>texture1 := Some 1, texture2 := Some 2\<rparr>)))"
  by (simp add: CubeGL_initializeGL_def Let_def truediv_def emit_def)


lemma length_cubeVertices_init: "length (cubeVertices (CubeGL_init qtCamera w h)) = 180"
  by (simp add: CubeGL_init_def)

lemma length_cubeCoords_init: "length (cubeCoords (CubeGL_init qtCamera w h)) = 10"
  by (simp add: CubeGL_init_def)

lemma initialised_CubeGL_fields:
  "h \<noteq> 0 \<Longrightarrow> texture1 (snd (CubeGL_initializeGL (CubeGL_init qtCamera w h))) = Some 1"
  "h \<noteq> 0 \<Longrightarrow> texture2 (snd (CubeGL_initializeGL (CubeGL_init qtCamera w h))) = Some 2"
  "cubeCoords (snd (CubeGL_initializeGL (CubeGL_init qtCamera w h))) = cubeCoords (CubeGL_init qtCamera w h)"
  "cubeVertices (snd (CubeGL_initializeGL (CubeGL_init qtCamera w h))) = cubeVertices (CubeGL_init qtCamera w h)"
  by (simp_all add: CubeGL_initializeGL_eq emit_CubeGL_fields, simp_all add: CubeGL_init_def)

section \<open>Properties of the widgets\<close>

text \<open>
  C9: every element of \<open>RectangleGL.indices\<close> is below the number of vertices (4) of
  \<open>vertexData\<close>, the count passed to \<open>glDrawElements\<close> is \<open>indices.size = 6\<close>, and the
  two triples (0,1,3) and (1,2,3) together reference all four corners.
\<close>

theorem C9_rectangle_indices_valid:
  "vertex_count 3 (vertexData (RectangleGL_init w h)) = 4
   \<and> list_all (\<lambda>i. unat i < vertex_count 3 (vertexData (RectangleGL_init w h)))
        (indices (RectangleGL_init w h))
   \<and> draw_elements_counts (gl (RectangleGL_paintGL (RectangleGL_init w h))) = [6]
   \<and> length (indices (RectangleGL_init w h)) = 6
   \<and> indices (RectangleGL_init w h) = [0, 1, 3] @ [1, 2, 3]
   \<and> unat ` set (indices (RectangleGL_init w h)) = {0, 1, 2, 3}"
  by (simp add: RectangleGL_init_def RectangleGL_paintGL_def vertex_count_def emit_def
      insert_commute)

text \<open>
  C5: wherever the \<open>projection\<close> uniform is set, its value is the matrix built by the one
  library call \<open>perspective(camera.zoom, width / height, 0.2, 100.0)\<close> on a fresh
  \<open>QMatrix4x4\<close>. \<open>CubeGL.initializeGL\<close> and \<open>EventsGL.paintGL\<close> set it exactly once
  (never, when the height is 0 and the division raises first); \<open>CubeGL.paintGL\<close> does
  not set it.
\<close>

theorem C5_projection_by_perspective:
  fixes c :: "'a CubeGL_scheme" and e :: "'b EventsGL_scheme" and p :: "'c CubeGL_scheme"
  shows
  "uniform_values ''projection'' (issued c (snd (CubeGL_initializeGL c))) =
     (if height c = 0 then []
      else [UMatrix (QMatrix4x4_perspective (zoom (camera c))
              (real_of_int (width c) / real_of_int (height c)) 0.2 100.0 QMatrix4x4)])
   \<and> uniform_values ''projection'' (issued e (snd (EventsGL_paintGL e))) =
     (if height e = 0 then []
      else [UMatrix (QMatrix4x4_perspective (zoom (camera e))
              (real_of_int (width e) / real_of_int (height e)) 0.2 100.0 QMatrix4x4)])
   \<and> uniform_values ''projection'' (issued p (snd (CubeGL_paintGL p))) = []
   \<and> QMatrix4x4_perspective fov aspect 0.2 100.0 QMatrix4x4 = [Perspective fov aspect 0.2 100.0]"
proof -
  have a: "uniform_values ''projection'' (issued c (snd (CubeGL_initializeGL c))) =
     (if height c = 0 then []
      else [UMatrix (QMatrix4x4_perspective (zoom (camera c))
              (real_of_int (width c) / real_of_int (height c)) 0.2 100.0 QMatrix4x4)])"
    by (simp add: CubeGL_initializeGL_eq issued_def emit_def)
  obtain cs where cs: "snd (EventsGL_paintGL e) =
          emit ([GlClear [GL_COLOR_BUFFER_BIT, GL_DEPTH_BUFFER_BIT], VaoBind, VboBind, ProgramBind] @
                (if height e = 0 then []
                 else [SetUniformValue ''projection''
                         (UMatrix (QMatrix4x4_perspective (zoom (camera e))
                            (real_of_int (width e) / real_of_int (height e)) 0.2 100.0 QMatrix4x4)),
                       SetUniformValue ''view'' (UViewMatrix (camera e))] @ cs)) e"
       "list_all quiet cs"
    using EventsGL_paintGL_frame[of e] by blast
  have b: "uniform_values ''projection'' (issued e (snd (EventsGL_paintGL e))) =
     (if height e = 0 then []
      else [UMatrix (QMatrix4x4_perspective (zoom (camera e))
              (real_of_int (width e) / real_of_int (height e)) 0.2 100.0 QMatrix4x4)])"
    unfolding cs(1) issued_emit using uniform_values_quiet[OF cs(2)] by simp
  obtain ds where ds: "snd (CubeGL_paintGL p) = emit ds p" "list_all quiet ds"
    using CubeGL_paintGL_frame[of p] by blast
  have c: "uniform_values ''projection'' (issued p (snd (CubeGL_paintGL p))) = []"
    unfolding ds(1) issued_emit by (rule uniform_values_quiet[OF ds(2)])
  have d: "QMatrix4x4_perspective fov aspect 0.2 100.0 QMatrix4x4 = [Perspective fov aspect 0.2 100.0]"
    by (simp add: QMatrix4x4_perspective_def QMatrix4x4_def)
  show ?thesis using a b c d by blast
qed

text \<open>
  C6: \<open>paintGL\<close> (of \<open>CubeGL\<close> and of \<open>EventsGL\<close>) leaves \<open>cubeVertices\<close>, \<open>cubeCoords\<close> and
  the contents of the vertex buffer as they were, whether it returns or raises. The
  buffer holds what \<open>initializeGL\<close> allocated: the whole \<open>cubeVertices\<close> array.
\<close>

theorem C6_vertex_buffer_fixed:
  fixes c :: "'a CubeGL_scheme" and e :: "'b EventsGL_scheme" and i :: "'c CubeGL_scheme"
  shows
  "cubeVertices (snd (CubeGL_paintGL c)) = cubeVertices c
   \<and> cubeCoords (snd (CubeGL_paintGL c)) = cubeCoords c
   \<and> vbo_contents cur (gl (snd (CubeGL_paintGL c))) = vbo_contents cur (gl c)
   \<and> cubeVertices (snd (EventsGL_paintGL e)) = cubeVertices e
   \<and> cubeCoords (snd (EventsGL_paintGL e)) = cubeCoords e
   \<and> vbo_contents cur (gl (snd (EventsGL_paintGL e))) = vbo_contents cur (gl e)
   \<and> vbo_contents cur (gl (snd (CubeGL_initializeGL i))) =
       (if height i = 0 then vbo_contents cur (gl i) else Some (cubeVertices i))"
proof -
  obtain ds where ds: "snd (CubeGL_paintGL c) = emit ds c" "list_all quiet ds"
    using CubeGL_paintGL_frame[of c] by blast
  have c1: "cubeVertices (snd (CubeGL_paintGL c)) = cubeVertices c"
    and c2: "cubeCoords (snd (CubeGL_paintGL c)) = cubeCoords c"
    and c3: "vbo_contents cur (gl (snd (CubeGL_paintGL c))) = vbo_contents cur (gl c)"
    unfolding ds(1)
    by (simp_all add: emit_CubeGL_fields gl_emit vbo_contents_append vbo_contents_quiet[OF ds(2)])
  obtain cs where cs: "snd (EventsGL_paintGL e) =
          emit ([GlClear [GL_COLOR_BUFFER_BIT, GL_DEPTH_BUFFER_BIT], VaoBind, VboBind, ProgramBind] @
                (if height e = 0 then []
                 else [SetUniformValue ''projection''
                         (UMatrix (QMatrix4x4_perspective (zoom (camera e))
                            (real_of_int (width e) / real_of_int (height e)) 0.2 100.0 QMatrix4x4)),
                       SetUniformValue ''view'' (UViewMatrix (camera e))] @ cs)) e"
       "list_all quiet cs"
    using EventsGL_paintGL_frame[of e] by blast
  have e1: "cubeVertices (snd (EventsGL_paintGL e)) = cubeVertices e"
    and e2: "cubeCoords (snd (EventsGL_paintGL e)) = cubeCoords e"
    and e3: "vbo_contents cur (gl (snd (EventsGL_paintGL e))) = vbo_contents cur (gl e)"
    unfolding cs(1)
    by (simp_all add: emit_CubeGL_fields gl_emit vbo_contents_append vbo_contents_quiet[OF cs(2)])
  have i1: "vbo_contents cur (gl (snd (CubeGL_initializeGL i))) =
       (if height i = 0 then vbo_contents cur (gl i) else Some (cubeVertices i))"
    by (simp add: CubeGL_initializeGL_eq gl_emit vbo_contents_append floatSize_def)
  show ?thesis using c1 c2 c3 e1 e2 e3 i1 by blast
qed

text \<open>
  C8: a frame of \<open>CubeGL.paintGL\<close> (textures created, \<open>cubeVertices\<close> and \<open>cubeCoords\<close> as
  the constructor set them) makes exactly 10 draw calls, and the model uniform in force
  at the \<open>i\<close>-th one is \<open>translate(cubeCoords[i])\<close> followed by
  \<open>rotate(30 * i, (0.7, 0.2, 0.5))\<close> on a fresh matrix; these ten are the only values the
  model uniform receives. What a call draws is not a cube, though: every call is
  \<open>glDrawArrays(GL_TRIANGLES, 0, 180)\<close>, and the array the buffer was filled from holds
  36 vertices of 5 floats, so each call asks for 144 vertices past the cube's.
\<close>

theorem C8_draws_and_model_matrices:
  fixes s :: "'a CubeGL_scheme"
  assumes "texture1 s = Some t1" and "texture2 s = Some t2"
    and "cubeCoords s = cubeCoords (CubeGL_init qtCamera w h)"
    and "cubeVertices s = cubeVertices (CubeGL_init qtCamera w h)"
  shows "fst (CubeGL_paintGL s) = Inr ()
    \<and> length (cubeCoords s) = 10
    \<and> draw_arrays_calls (issued s (snd (CubeGL_paintGL s))) = replicate 10 (GL_TRIANGLES, 0, 180)
    \<and> vertex_count 5 (cubeVertices s) = 36
    \<and> models_at_draws None (issued s (snd (CubeGL_paintGL s))) =
        map (\<lambda>i. Some (UMatrix (QMatrix4x4_rotate (real (30 * i)) (QVector3D 0.7 0.2 0.5)
                                 (QMatrix4x4_translate (cubeCoords s ! i) QMatrix4x4)))) [0..<10]
    \<and> uniform_values ''model'' (issued s (snd (CubeGL_paintGL s))) =
        map (\<lambda>i. UMatrix (QMatrix4x4_rotate (real (30 * i)) (QVector3D 0.7 0.2 0.5)
                           (QMatrix4x4_translate (cubeCoords s ! i) QMatrix4x4))) [0..<10]
    \<and> QMatrix4x4_rotate a v (QMatrix4x4_translate pos QMatrix4x4) = [Translate pos, Rotate a v]"
proof -
  note ok = CubeGL_paintGL_ok[OF assms(1,2)]
  have len: "length (cubeCoords s) = 10"
    by (simp add: assms(3) length_cubeCoords_init)
  have lv: "length (cubeVertices s) = 180"
    by (simp add: assms(4) length_cubeVertices_init)
  have st: "fst (CubeGL_paintGL s) = Inr ()" by (simp add: ok)
  let ?tail = "[VboRelease, ProgramRelease, TextureRelease t1, TextureRelease t2]"
  let ?m = "\<lambda>k pos. UMatrix (QMatrix4x4_rotate (real (30 * k)) (QVector3D 0.7 0.2 0.5)
                                 (QMatrix4x4_translate pos QMatrix4x4))"
  have dr: "draw_arrays_calls (issued s (snd (CubeGL_paintGL s))) =
              replicate (length (cubeCoords s)) (GL_TRIANGLES, 0, length (cubeVertices s))"
    using draw_arrays_cubes[of ?tail ?m t1 "texUnit1 s" t2 "texUnit2 s" "length (cubeVertices s)"
             "zip [0..<length (cubeCoords s)] (cubeCoords s)"]
    by (simp add: ok issued_emit)
  have dr': "draw_arrays_calls (issued s (snd (CubeGL_paintGL s))) =
              replicate 10 (GL_TRIANGLES, 0, 180)"
    unfolding dr len lv by (rule refl)
  have vc: "vertex_count 5 (cubeVertices s) = 36"
    by (simp add: vertex_count_def lv)
  have mo: "models_at_draws None (issued s (snd (CubeGL_paintGL s))) =
              map (\<lambda>(k, pos). Some (?m k pos)) (zip [0..<length (cubeCoords s)] (cubeCoords s))"
    using models_at_draws_cubes[of ?tail None ?m t1 "texUnit1 s" t2 "texUnit2 s"
             "length (cubeVertices s)" "zip [0..<length (cubeCoords s)] (cubeCoords s)"]
    by (simp add: ok issued_emit)
  have un: "uniform_values ''model'' (issued s (snd (CubeGL_paintGL s))) =
              map (\<lambda>(k, pos). ?m k pos) (zip [0..<length (cubeCoords s)] (cubeCoords s))"
    using uniform_model_cubes[of ?tail ?m t1 "texUnit1 s" t2 "texUnit2 s"
             "length (cubeVertices s)" "zip [0..<length (cubeCoords s)] (cubeCoords s)"]
    by (simp add: ok issued_emit)
  have mo': "models_at_draws None (issued s (snd (CubeGL_paintGL s))) =
        map (\<lambda>i. Some (?m i (cubeCoords s ! i))) [0..<10]"
    unfolding mo using map2_nth[of "\<lambda>k pos. Some (?m k pos)" "cubeCoords s"] len by simp
  have un': "uniform_values ''model'' (issued s (snd (CubeGL_paintGL s))) =
        map (\<lambda>i. ?m i (cubeCoords s ! i)) [0..<10]"
    unfolding un using map2_nth[of ?m "cubeCoords s"] len by simp
  have comp: "QMatrix4x4_rotate a v (QMatrix4x4_translate pos QMatrix4x4) = [Translate pos, Rotate a v]"
    by (simp add: QMatrix4x4_rotate_def QMatrix4x4_translate_def QMatrix4x4_def)
  show ?thesis using st len dr' vc mo' un' comp by blast
qed

text \<open>
  The hypotheses of C8 hold after \<open>initializeGL\<close> on a constructed widget, and there the
  frame is ten draws of 180 vertices from the 36 the array holds.
\<close>

theorem C8_draws_and_model_matrices_witness:
  "texture1 (snd (CubeGL_initializeGL (CubeGL_init example_camera 800 600))) = Some 1
   \<and> texture2 (snd (CubeGL_initializeGL (CubeGL_init example_camera 800 600))) = Some 2
   \<and> fst (CubeGL_paintGL (snd (CubeGL_initializeGL (CubeGL_init example_camera 800 600)))) = Inr ()
   \<and> draw_arrays_calls
        (issued (snd (CubeGL_initializeGL (CubeGL_init example_camera 800 600)))
           (snd (CubeGL_paintGL (snd (CubeGL_initializeGL (CubeGL_init example_camera 800 600))))))
       = replicate 10 (GL_TRIANGLES, 0, 180)
   \<and> vertex_count 5
        (cubeVertices (snd (CubeGL_initializeGL (CubeGL_init example_camera 800 600)))) = 36"
proof -
  have h: "(600::int) \<noteq> 0" by simp
  note f = initialised_CubeGL_fields(1)[OF h, of example_camera 800]
           initialised_CubeGL_fields(2)[OF h, of example_camera 800]
           initialised_CubeGL_fields(3)[of example_camera 800 600]
           initialised_CubeGL_fields(4)[of example_camera 800 600]
  show ?thesis
    using C8_draws_and_model_matrices[OF f] f(1,2) by simp
qed

text \<open>
  C3: the draw loops of \<open>CubeGL.paintGL\<close> and \<open>EventsGL.paintGL\<close> do not issue the same
  \<open>glDrawArrays\<close> calls. On the same cube positions, \<open>CubeGL\<close> passes
  \<open>cubeVertices.size = 180\<close> (the number of floats) as the vertex count, \<open>EventsGL\<close>
  passes 36, the number of vertices the array holds.
\<close>

theorem C3_draw_counts_differ:
  fixes c :: "'a CubeGL_scheme" and e :: "'b EventsGL_scheme"
  assumes "texture1 c = Some t1" and "texture2 c = Some t2"
    and "texture1 e = Some u1" and "texture2 e = Some u2"
    and "height e \<noteq> 0"
    and "cubeVertices c = cubeVertices (CubeGL_init qtCamera w h)"
    and "cubeCoords e = cubeCoords c"
  shows "draw_arrays_calls (issued c (snd (CubeGL_paintGL c))) =
           replicate (length (cubeCoords c)) (GL_TRIANGLES, 0, 180)
    \<and> draw_arrays_calls (issued e (snd (EventsGL_paintGL e))) =
           replicate (length (cubeCoords c)) (GL_TRIANGLES, 0, 36)
    \<and> vertex_count 5 (cubeVertices c) = 36"
proof -
  let ?tc = "[VboRelease, ProgramRelease, TextureRelease t1, TextureRelease t2]"
  let ?te = "[VboRelease, ProgramRelease, TextureRelease u1, TextureRelease u2]"
  have lv: "length (cubeVertices c) = 180"
    by (simp add: assms(6) length_cubeVertices_init)
  have a: "draw_arrays_calls (issued c (snd (CubeGL_paintGL c))) =
           replicate (length (cubeCoords c)) (GL_TRIANGLES, 0, 180)"
    using draw_arrays_cubes[of ?tc
             "\<lambda>k pos. UMatrix (QMatrix4x4_rotate (real (30 * k)) (QVector3D 0.7 0.2 0.5)
                                 (QMatrix4x4_translate pos QMatrix4x4))"
             t1 "texUnit1 c" t2 "texUnit2 c" "length (cubeVertices c)"
             "zip [0..<length (cubeCoords c)] (cubeCoords c)"]
    by (simp add: CubeGL_paintGL_ok[OF assms(1,2)] issued_emit lv)
  have b: "draw_arrays_calls (issued e (snd (EventsGL_paintGL e))) =
           replicate (length (cubeCoords c)) (GL_TRIANGLES, 0, 36)"
    using draw_arrays_cubes[of ?te
             "\<lambda>k pos. UMatrix (QMatrix4x4_rotate (real (30 * k)) (rotateVector e)
                                 (QMatrix4x4_translate pos QMatrix4x4))"
             u1 0 u2 1 36 "zip [0..<length (cubeCoords e)] (cubeCoords e)"]
    by (simp add: EventsGL_paintGL_ok[OF assms(3,4,5)] issued_emit assms(7))
  have v: "vertex_count 5 (cubeVertices c) = 36"
    by (simp add: vertex_count_def lv)
  show ?thesis using a b v by blast
qed

text \<open>The two logs on the constructed widgets: ten draws of 180 against ten of 36.\<close>

theorem C3_draw_counts_witness:
  "draw_arrays_calls
     (issued (snd (CubeGL_initializeGL (CubeGL_init example_camera 800 600)))
        (snd (CubeGL_paintGL (snd (CubeGL_initializeGL (CubeGL_init example_camera 800 600))))))
     = replicate 10 (GL_TRIANGLES, 0, 180)
   \<and> draw_arrays_calls (issued example_EventsGL (snd (EventsGL_paintGL example_EventsGL)))
     = replicate 10 (GL_TRIANGLES, 0, 36)"
proof -
  have h: "(600::int) \<noteq> 0" by simp
  have he: "height example_EventsGL \<noteq> 0" by (simp add: example_EventsGL_fields)
  have cc: "cubeCoords example_EventsGL =
            cubeCoords (snd (CubeGL_initializeGL (CubeGL_init example_camera 800 600)))"
    by (simp add: example_EventsGL_fields initialised_CubeGL_fields(3))
  show ?thesis
    using C3_draw_counts_differ[OF initialised_CubeGL_fields(1)[OF h, of example_camera 800]
        initialised_CubeGL_fields(2)[OF h, of example_camera 800]
        example_EventsGL_fields(3) example_EventsGL_fields(4) he
        initialised_CubeGL_fields(4)[of example_camera 800 600] cc]
    by (simp add: initialised_CubeGL_fields(3) length_cubeCoords_init)
qed

text \<open>
  C10: the division \<open>self.width() / self.height()\<close> is unguarded. With a nonzero height
  it yields the quotient and \<open>ZeroDivisionError\<close> is not the outcome of
  \<open>EventsGL.paintGL\<close> or \<open>CubeGL.initializeGL\<close>; with height 0 both raise it.
\<close>

theorem C10_aspect_division:
  fixes c :: "'a CubeGL_scheme" and e :: "'b EventsGL_scheme"
  shows "(height e \<noteq> 0 \<longrightarrow>
            truediv (width e) (height e) = Inr (real_of_int (width e) / real_of_int (height e))
            \<and> fst (EventsGL_paintGL e) \<noteq> Inl ZeroDivisionError)
    \<and> (height c \<noteq> 0 \<longrightarrow>
            truediv (width c) (height c) = Inr (real_of_int (width c) / real_of_int (height c))
            \<and> fst (CubeGL_initializeGL c) = Inr ())
    \<and> (height e = 0 \<longrightarrow> fst (EventsGL_paintGL e) = Inl ZeroDivisionError)
    \<and> (height c = 0 \<longrightarrow> fst (CubeGL_initializeGL c) = Inl ZeroDivisionError)"
proof (intro conjI impI)
  assume "height e \<noteq> 0"
  then show "truediv (width e) (height e) = Inr (real_of_int (width e) / real_of_int (height e))"
    by (simp add: truediv_def)
next
  assume "height e \<noteq> 0"
  then show "fst (EventsGL_paintGL e) \<noteq> Inl ZeroDivisionError"
    by (rule EventsGL_paintGL_status)
next
  assume "height c \<noteq> 0"
  then show "truediv (width c) (height c) = Inr (real_of_int (width c) / real_of_int (height c))"
    by (simp add: truediv_def)
next
  assume "height c \<noteq> 0"
  then show "fst (CubeGL_initializeGL c) = Inr ()"
    by (simp add: CubeGL_initializeGL_eq)
next
  assume "height e = 0"
  then show "fst (EventsGL_paintGL e) = Inl ZeroDivisionError"
    by (simp add: EventsGL_paintGL_def Let_def truediv_def emit_fields)
next
  assume "height c = 0"
  then show "fst (CubeGL_initializeGL c) = Inl ZeroDivisionError"
    by (simp add: CubeGL_initializeGL_eq)
qed

text \<open>Both branches of C10 on concrete widgets (height 600, height 0).\<close>

theorem C10_aspect_division_witness:
  "height example_EventsGL \<noteq> 0
   \<and> truediv (width example_EventsGL) (height example_EventsGL) = Inr (800 / 600)
   \<and> fst (EventsGL_paintGL example_EventsGL) \<noteq> Inl ZeroDivisionError
   \<and> fst (CubeGL_initializeGL (CubeGL_init example_camera 800 600)) = Inr ()
   \<and> fst (EventsGL_paintGL (example_EventsGL\<lparr>height := 0\<rparr>)) = Inl ZeroDivisionError
   \<and> fst (CubeGL_initializeGL (CubeGL_init example_camera 800 0)) = Inl ZeroDivisionError"
proof -
  have w6: "height (CubeGL_init example_camera 800 600) = 600"
    and w0: "height (CubeGL_init example_camera 800 0) = 0"
    and ww: "width (CubeGL_init example_camera 800 600) = 800"
    by (simp_all add: CubeGL_init_def)
  show ?thesis
    using C10_aspect_division[of example_EventsGL "CubeGL_init example_camera 800 600"]
      C10_aspect_division[of "example_EventsGL\<lparr>height := 0\<rparr>" "CubeGL_init example_camera 800 0"]
    by (simp add: example_EventsGL_fields w6 w0 ww)
qed

section \<open>Lemmas about the window\<close>

lemma bound_in_range: "in_range 180 (bound (- 180) v 180)"
  by (simp add: in_range_def bound_def)

lemma slider_ok_setRange: "slider_ok (setRange (- 180) 180 s)"
  by (simp add: slider_ok_def setRange_def Let_def bound_in_range)

lemma window_ok_init: "window_ok (EventAppWindow_init cx cy x y z)"
  by (simp add: window_ok_def EventAppWindow_init_def GLWindow_init_def connect_def wired_def
      Let_def slider_ok_setRange)

lemma glWidget_init: "glWidget (EventAppWindow_init cx cy x y z) = []"
  by (simp add: EventAppWindow_init_def GLWindow_init_def connect_def Let_def)

lemma click_wired:
  assumes "connections w = wired"
  shows "click UpBtn w = w\<lparr>glWidget := glWidget w @ [Call_moveCamera ''forward'']\<rparr>"
    and "click DownBtn w = w\<lparr>glWidget := glWidget w @ [Call_moveCamera ''backward'']\<rparr>"
    and "click LeftBtn w = w\<lparr>glWidget := glWidget w @ [Call_moveCamera ''left'']\<rparr>"
    and "click RightBtn w = w\<lparr>glWidget := glWidget w @ [Call_moveCamera ''right'']\<rparr>"
  using assms
  by (simp_all add: click_def wired_def moveCameraForward_def moveCameraBackward_def
      moveCameraLeft_def moveCameraRight_def moveGLCamera_def)

lemma setValue_CamX_wired:
  assumes "connections w = wired" "minimum (camX w) = - 180" "maximum (camX w) = 180"
  shows "setValue CamX v w =
     (if bound (- 180) v 180 = val (camX w) then w
      else w\<lparr>camX := (camX w)\<lparr>val := bound (- 180) v 180\<rparr>,
             glWidget := glWidget w @
               [Call_turnAround (float (bound (- 180) v 180 - lastCamXVal w))
                                (float (val (camY w) - lastCamYVal w))],
             lastCamXVal := bound (- 180) v 180\<rparr>)"
  using assms
  by (simp add: setValue_def Let_def wired_def turnCameraX_def)

lemma setValue_CamY_wired:
  assumes "connections w = wired" "minimum (camY w) = - 180" "maximum (camY w) = 180"
  shows "setValue CamY v w =
     (if bound (- 180) v 180 = val (camY w) then w
      else w\<lparr>camY := (camY w)\<lparr>val := bound (- 180) v 180\<rparr>,
             glWidget := glWidget w @
               [Call_turnAround (float (val (camX w) - lastCamXVal w))
                                (float (bound (- 180) v 180 - lastCamYVal w))],
             lastCamYVal := bound (- 180) v 180\<rparr>)"
  using assms
  by (simp add: setValue_def Let_def wired_def turnCameraY_def)

lemma setValue_XSlider_wired:
  assumes "connections w = wired" "minimum (xSlider w) = - 180" "maximum (xSlider w) = 180"
  shows "setValue XSlider v w =
     (if bound (- 180) v 180 = val (xSlider w) then w
      else w\<lparr>xSlider := (xSlider w)\<lparr>val := bound (- 180) v 180\<rparr>,
             glWidget := glWidget w @
               [Call_rotateCubes (bound (- 180) v 180) (val (ySlider w)) (val (zSlider w))]\<rparr>)"
  using assms
  by (simp add: setValue_def Let_def wired_def rotateCubes_def)

lemma setValue_YSlider_wired:
  assumes "connections w = wired" "minimum (ySlider w) = - 180" "maximum (ySlider w) = 180"
  shows "setValue YSlider v w =
     (if bound (- 180) v 180 = val (ySlider w) then w
      else w\<lparr>ySlider := (ySlider w)\<lparr>val := bound (- 180) v 180\<rparr>,
             glWidget := glWidget w @
               [Call_rotateCubes (val (xSlider w)) (bound (- 180) v 180) (val (zSlider w))]\<rparr>)"
  using assms
  by (simp add: setValue_def Let_def wired_def rotateCubes_def)

lemma setValue_ZSlider_wired:
  assumes "connections w = wired" "minimum (zSlider w) = - 180" "maximum (zSlider w) = 180"
  shows "setValue ZSlider v w =
     (if bound (- 180) v 180 = val (zSlider w) then w
      else w\<lparr>zSlider := (zSlider w)\<lparr>val := bound (- 180) v 180\<rparr>,
             glWidget := glWidget w @
               [Call_rotateCubes (val (xSlider w)) (val (ySlider w)) (bound (- 180) v 180)]\<rparr>)"
  using assms
  by (simp add: setValue_def Let_def wired_def rotateCubes_def)

lemma in_range_diff:
  "in_range 180 a \<Longrightarrow> in_range 180 b \<Longrightarrow> real_in_range 360 (float (a - b))"
  by (simp add: in_range_def real_in_range_def float_def)

lemma real_in_range_0: "real_in_range 360 (float 0)"
  by (simp add: real_in_range_def float_def)

lemma window_ok_event:
  assumes "window_ok w"
  shows "window_ok (handle_event ev w)"
proof (cases ev)
  case (Click b)
  from assms have c: "connections w = wired" by (simp add: window_ok_def)
  show ?thesis using assms Click
    by (cases b) (simp_all add: click_wired[OF c] window_ok_def)
next
  case (Move name v)
  from assms have c: "connections w = wired" by (simp add: window_ok_def)
  from assms have r:
    "minimum (camX w) = - 180" "maximum (camX w) = 180"
    "minimum (camY w) = - 180" "maximum (camY w) = 180"
    "minimum (xSlider w) = - 180" "maximum (xSlider w) = 180"
    "minimum (ySlider w) = - 180" "maximum (ySlider w) = 180"
    "minimum (zSlider w) = - 180" "maximum (zSlider w) = 180"
    by (simp_all add: window_ok_def slider_ok_def)
  show ?thesis using assms Move
    by (cases name)
       (simp_all add: setValue_CamX_wired[OF c r(1,2)] setValue_CamY_wired[OF c r(3,4)]
          setValue_XSlider_wired[OF c r(5,6)] setValue_YSlider_wired[OF c r(7,8)]
          setValue_ZSlider_wired[OF c r(9,10)] window_ok_def slider_ok_def bound_in_range)
qed

lemma calls_within_event:
  assumes "window_ok w" "list_all (call_within 360) (glWidget w)"
  shows "list_all (call_within 360) (glWidget (handle_event ev w))"
proof (cases ev)
  case (Click b)
  from assms have c: "connections w = wired" by (simp add: window_ok_def)
  show ?thesis using assms Click
    by (cases b) (simp_all add: click_wired[OF c])
next
  case (Move name v)
  from assms have c: "connections w = wired" by (simp add: window_ok_def)
  from assms have r:
    "minimum (camX w) = - 180" "maximum (camX w) = 180"
    "minimum (camY w) = - 180" "maximum (camY w) = 180"
    "minimum (xSlider w) = - 180" "maximum (xSlider w) = 180"
    "minimum (ySlider w) = - 180" "maximum (ySlider w) = 180"
    "minimum (zSlider w) = - 180" "maximum (zSlider w) = 180"
    and v: "in_range 180 (val (camX w))" "in_range 180 (val (camY w))"
      "in_range 180 (val (xSlider w))" "in_range 180 (val (ySlider w))"
      "in_range 180 (val (zSlider w))"
    and l: "lastCamXVal w = val (camX w)" "lastCamYVal w = val (camY w)"
    by (simp_all add: window_ok_def slider_ok_def)
  show ?thesis using assms(2) Move v
    by (cases name)
       (simp_all add: setValue_CamX_wired[OF c r(1,2)] setValue_CamY_wired[OF c r(3,4)]
          setValue_XSlider_wired[OF c r(5,6)] setValue_YSlider_wired[OF c r(7,8)]
          setValue_ZSlider_wired[OF c r(9,10)] l bound_in_range in_range_diff real_in_range_0)
qed

lemma run_events_snoc: "run_events (evs @ [ev]) w = handle_event ev (run_events evs w)"
  by (simp add: run_events_def)

lemma reachable_ok:
  "window_ok (run_events evs (EventAppWindow_init cx cy x y z))
   \<and> list_all (call_within 360) (glWidget (run_events evs (EventAppWindow_init cx cy x y z)))"
proof (induction evs rule: rev_induct)
  case Nil
  show ?case by (simp add: run_events_def window_ok_init glWidget_init)
next
  case (snoc ev evs)
  then show ?case
    by (simp add: run_events_snoc window_ok_event calls_within_event)
qed

lemma example_window_eq:
  "example_window =
     \<lparr>camX = \<lparr>minimum = - 180, maximum = 180, val = 0\<rparr>,
      camY = \<lparr>minimum = - 180, maximum = 180, val = 0\<rparr>,
      xSlider = \<lparr>minimum = - 180, maximum = 180, val = 0\<rparr>,
      ySlider = \<lparr>minimum = - 180, maximum = 180, val = 0\<rparr>,
      zSlider = \<lparr>minimum = - 180, maximum = 180, val = 0\<rparr>,
      glWidget = [], connections = wired, lastCamXVal = 0, lastCamYVal = 0\<rparr>"
  by (simp add: example_window_def EventAppWindow_init_def GLWindow_init_def connect_def
      wired_def Let_def setRange_def example_slider_def bound_def)


lemma turnCameraX_seq_eq:
  "turnCameraX_seq vs w =
     w\<lparr>glWidget := glWidget w @
          map (\<lambda>d. Call_turnAround (float d) (float (val (camY w) - lastCamYVal w)))
              (deltas (lastCamXVal w) vs),
       lastCamXVal := last (lastCamXVal w # vs)\<rparr>"
proof (induction vs arbitrary: w)
  case Nil
  show ?case by (simp add: turnCameraX_seq_def)
next
  case (Cons v vs)
  have "turnCameraX_seq (v # vs) w = turnCameraX_seq vs (turnCameraX v w)"
    by (simp add: turnCameraX_seq_def)
  then show ?case
    by (simp add: Cons.IH turnCameraX_def Let_def)
qed

lemma turnCameraY_seq_eq:
  "turnCameraY_seq vs w =
     w\<lparr>glWidget := glWidget w @
          map (\<lambda>d. Call_turnAround (float (val (camX w) - lastCamXVal w)) (float d))
              (deltas (lastCamYVal w) vs),
       lastCamYVal := last (lastCamYVal w # vs)\<rparr>"
proof (induction vs arbitrary: w)
  case Nil
  show ?case by (simp add: turnCameraY_seq_def)
next
  case (Cons v vs)
  have "turnCameraY_seq (v # vs) w = turnCameraY_seq vs (turnCameraY v w)"
    by (simp add: turnCameraY_seq_def)
  then show ?case
    by (simp add: Cons.IH turnCameraY_def Let_def)
qed

lemma sum_deltas: "sum_list (map float (deltas v0 vs)) = float (last (v0 # vs) - v0)"
  by (induction vs arbitrary: v0) (simp_all add: float_def)

lemma turn_xs_map: "turn_xs (map (\<lambda>d. Call_turnAround (f d) (g d)) ds) = map f ds"
  by (induction ds) simp_all

lemma turn_ys_map: "turn_ys (map (\<lambda>d. Call_turnAround (f d) (g d)) ds) = map g ds"
  by (induction ds) simp_all

lemma length_deltas: "length (deltas v0 vs) = length vs"
  by (induction vs arbitrary: v0) simp_all

section \<open>Properties of the window\<close>

text \<open>
  C2 as stated fails: what \<open>turnAround\<close> receives is an offset between two slider
  positions, not a slider position. Moving \<open>camX\<close> from 0 to -180 and then to 180 forwards
  the offset 360, outside [-180, 180].
\<close>

theorem C2_offset_out_of_range:
  "glWidget (run_events [Move CamX (- 180), Move CamX 180] example_window) =
     [Call_turnAround (- 180) 0, Call_turnAround 360 0]
   \<and> \<not> list_all (call_within 180)
         (glWidget (run_events [Move CamX (- 180), Move CamX 180] example_window))"
  by (simp add: run_events_def example_window_eq setValue_def Let_def bound_def wired_def
      turnCameraX_def float_def real_in_range_def)

text \<open>
  C2, amended: after every sequence of UI events on a constructed window, the five slider
  values and \<open>lastCamXVal\<close>, \<open>lastCamYVal\<close> lie in [-180, 180], every value forwarded to
  \<open>rotateCubes\<close> lies in [-180, 180], and every offset forwarded to \<open>turnAround\<close> lies in
  [-360, 360]. The handlers and \<open>turnAround\<close> clamp nothing: they forward the difference,
  or the slider values, they compute, whatever their size.
\<close>

theorem C2_ranges:
  "sliders_in_range (run_events evs (EventAppWindow_init cx cy x y z))
   \<and> in_range 180 (lastCamXVal (run_events evs (EventAppWindow_init cx cy x y z)))
   \<and> in_range 180 (lastCamYVal (run_events evs (EventAppWindow_init cx cy x y z)))
   \<and> list_all (call_within 360) (glWidget (run_events evs (EventAppWindow_init cx cy x y z)))
   \<and> new_calls w (turnCameraX v w) =
        [Call_turnAround (float (v - lastCamXVal w)) (float (val (camY w) - lastCamYVal w))]
   \<and> new_calls w (turnCameraY v w) =
        [Call_turnAround (float (val (camX w) - lastCamXVal w)) (float (v - lastCamYVal w))]
   \<and> new_calls w (rotateCubes w) =
        [Call_rotateCubes (val (xSlider w)) (val (ySlider w)) (val (zSlider w))]
   \<and> calls (camera (EventsGL_turnAround a b g)) = calls (camera g) @ [Cam_lookAround a b True]"
proof -
  let ?w = "run_events evs (EventAppWindow_init cx cy x y z)"
  from reachable_ok[of evs cx cy x y z]
  have ok: "window_ok ?w" and cw: "list_all (call_within 360) (glWidget ?w)" by simp_all
  have s: "sliders_in_range ?w" "in_range 180 (lastCamXVal ?w)" "in_range 180 (lastCamYVal ?w)"
    using ok by (simp_all add: window_ok_def slider_ok_def sliders_in_range_def)
  have h: "new_calls w (turnCameraX v w) =
        [Call_turnAround (float (v - lastCamXVal w)) (float (val (camY w) - lastCamYVal w))]"
    "new_calls w (turnCameraY v w) =
        [Call_turnAround (float (val (camX w) - lastCamXVal w)) (float (v - lastCamYVal w))]"
    "new_calls w (rotateCubes w) =
        [Call_rotateCubes (val (xSlider w)) (val (ySlider w)) (val (zSlider w))]"
    by (simp_all add: new_calls_def turnCameraX_def turnCameraY_def rotateCubes_def Let_def)
  have t: "calls (camera (EventsGL_turnAround a b g)) = calls (camera g) @ [Cam_lookAround a b True]"
    by (simp add: EventsGL_turnAround_def QWidget_update_def lookAround_def)
  show ?thesis using s cw h t by blast
qed

text \<open>
  C7: on every reachable window, clicking \<open>upBtn\<close>, \<open>downBtn\<close>, \<open>leftBtn\<close>, \<open>rightBtn\<close>
  makes exactly one call \<open>glWidget.moveCamera\<close>, with "forward", "backward", "left",
  "right" respectively, and changes nothing else of the window; in particular
  \<open>lastCamXVal\<close> and \<open>lastCamYVal\<close> stay.
\<close>

theorem C7_buttons_forward_direction:
  "(let w = run_events evs (EventAppWindow_init cx cy x y z) in
      click UpBtn w = w\<lparr>glWidget := glWidget w @ [Call_moveCamera ''forward'']\<rparr>
    \<and> click DownBtn w = w\<lparr>glWidget := glWidget w @ [Call_moveCamera ''backward'']\<rparr>
    \<and> click LeftBtn w = w\<lparr>glWidget := glWidget w @ [Call_moveCamera ''left'']\<rparr>
    \<and> click RightBtn w = w\<lparr>glWidget := glWidget w @ [Call_moveCamera ''right'']\<rparr>
    \<and> lastCamXVal (click b w) = lastCamXVal w
    \<and> lastCamYVal (click b w) = lastCamYVal w)"
proof -
  let ?w = "run_events evs (EventAppWindow_init cx cy x y z)"
  from reachable_ok[of evs cx cy x y z]
  have c: "connections ?w = wired" by (simp add: window_ok_def)
  have l: "lastCamXVal (click b ?w) = lastCamXVal ?w" "lastCamYVal (click b ?w) = lastCamYVal ?w"
    by (cases b; simp add: click_wired[OF c])+
  show ?thesis unfolding Let_def using click_wired[OF c] l by blast
qed

text \<open>
  C4: delivering \<open>v1, ..., vn\<close> to \<open>turnCameraX\<close> from \<open>lastCamXVal = v0\<close> passes the
  x-offsets \<open>v1 - v0, ..., vn - v(n-1)\<close> to \<open>turnAround\<close>; they sum to \<open>vn - v0\<close>; after
  each call \<open>lastCamXVal\<close> is the value just delivered (the constructor starts it at
  \<open>camX.value()\<close>). The same holds for \<open>turnCameraY\<close> and \<open>lastCamYVal\<close>. When \<open>camY\<close>'s
  value equals \<open>lastCamYVal\<close>, the y argument \<open>turnCameraX\<close> passes is 0.0 (and
  symmetrically).
\<close>

theorem C4_offsets_telescope:
  "turn_xs (new_calls w (turnCameraX_seq vs w)) = map float (deltas (lastCamXVal w) vs)
   \<and> sum_list (turn_xs (new_calls w (turnCameraX_seq vs w))) =
       float (last (lastCamXVal w # vs) - lastCamXVal w)
   \<and> lastCamXVal (turnCameraX_seq vs w) = last (lastCamXVal w # vs)
   \<and> lastCamXVal (turnCameraX v w) = v
   \<and> turn_ys (new_calls w (turnCameraY_seq vs w)) = map float (deltas (lastCamYVal w) vs)
   \<and> sum_list (turn_ys (new_calls w (turnCameraY_seq vs w))) =
       float (last (lastCamYVal w # vs) - lastCamYVal w)
   \<and> lastCamYVal (turnCameraY_seq vs w) = last (lastCamYVal w # vs)
   \<and> lastCamYVal (turnCameraY v w) = v
   \<and> lastCamXVal (EventAppWindow_init cx cy x y z) = val (camX (EventAppWindow_init cx cy x y z))
   \<and> lastCamYVal (EventAppWindow_init cx cy x y z) = val (camY (EventAppWindow_init cx cy x y z))
   \<and> (val (camY w) = lastCamYVal w \<longrightarrow> turn_ys (new_calls w (turnCameraX v w)) = [0.0])
   \<and> (val (camX w) = lastCamXVal w \<longrightarrow> turn_xs (new_calls w (turnCameraY v w)) = [0.0])"
proof -
  have x1: "turn_xs (new_calls w (turnCameraX_seq vs w)) = map float (deltas (lastCamXVal w) vs)"
    by (simp add: turnCameraX_seq_eq new_calls_def turn_xs_map)
  have x2: "sum_list (turn_xs (new_calls w (turnCameraX_seq vs w))) =
       float (last (lastCamXVal w # vs) - lastCamXVal w)"
    unfolding x1 by (rule sum_deltas)
  have x3: "lastCamXVal (turnCameraX_seq vs w) = last (lastCamXVal w # vs)"
    by (simp add: turnCameraX_seq_eq)
  have x4: "lastCamXVal (turnCameraX v w) = v"
    by (simp add: turnCameraX_def Let_def)
  have y1: "turn_ys (new_calls w (turnCameraY_seq vs w)) = map float (deltas (lastCamYVal w) vs)"
    by (simp add: turnCameraY_seq_eq new_calls_def turn_ys_map)
  have y2: "sum_list (turn_ys (new_calls w (turnCameraY_seq vs w))) =
       float (last (lastCamYVal w # vs) - lastCamYVal w)"
    unfolding y1 by (rule sum_deltas)
  have y3: "lastCamYVal (turnCameraY_seq vs w) = last (lastCamYVal w # vs)"
    by (simp add: turnCameraY_seq_eq)
  have y4: "lastCamYVal (turnCameraY v w) = v"
    by (simp add: turnCameraY_def Let_def)
  have i: "lastCamXVal (EventAppWindow_init cx cy x y z) = val (camX (EventAppWindow_init cx cy x y z))"
    "lastCamYVal (EventAppWindow_init cx cy x y z) = val (camY (EventAppWindow_init cx cy x y z))"
    by (simp_all add: EventAppWindow_init_def Let_def)
  have m: "val (camY w) = lastCamYVal w \<longrightarrow> turn_ys (new_calls w (turnCameraX v w)) = [0.0]"
    "val (camX w) = lastCamXVal w \<longrightarrow> turn_xs (new_calls w (turnCameraY v w)) = [0.0]"
    by (simp_all add: turnCameraX_def turnCameraY_def new_calls_def Let_def float_def)
  show ?thesis using x1 x2 x3 x4 y1 y2 y3 y4 i m by blast
qed

text \<open>C4 on the constructed example window, delivering 10, -20, 30.\<close>

theorem C4_offsets_telescope_witness:
  "val (camY example_window) = lastCamYVal example_window
   \<and> val (camX example_window) = lastCamXVal example_window
   \<and> turn_ys (new_calls example_window (turnCameraX 10 example_window)) = [0]
   \<and> turn_xs (new_calls example_window (turnCameraY 10 example_window)) = [0]
   \<and> turn_xs (new_calls example_window (turnCameraX_seq [10, - 20, 30] example_window)) = [10, - 30, 50]
   \<and> lastCamXVal (turnCameraX_seq [10, - 20, 30] example_window) = 30"
  using C4_offsets_telescope[of example_window "[10, - 20, 30]" 10]
  by (simp add: example_window_eq float_def)

text \<open>
  C1 as stated fails: moving \<open>xSlider\<close> to 10 on the constructed window calls
  \<open>glWidget.rotateCubes(10, 0, 0)\<close> and nothing else, and that call leaves the camera of
  the GL widget as it was.
\<close>

theorem C1_rotate_sliders_leave_camera:
  "new_calls example_window (handle_event (Move XSlider 10) example_window) =
     [Call_rotateCubes 10 0 0]
   \<and> camera (EventsGL_calls
        (new_calls example_window (handle_event (Move XSlider 10) example_window))
        example_EventsGL) = camera example_EventsGL"
  by (simp add: example_window_eq setValue_def Let_def bound_def wired_def rotateCubes_def
      new_calls_def EventsGL_calls_def EventsGL_rotateCubes_def QWidget_update_def)

text \<open>
  C1, amended: on every reachable window, a click on one of the four buttons makes one
  call \<open>moveCamera\<close> with the button's direction, and a change of \<open>camX\<close> (\<open>camY\<close>) makes
  one call \<open>turnAround\<close> with the offset from the previous value as x (as y) and 0 for
  the other; in the GL widget each of these is one method call on the camera. A change
  of \<open>xSlider\<close>, \<open>ySlider\<close> or \<open>zSlider\<close> makes one call \<open>rotateCubes\<close> with the three
  slider values, which sets the rotation vector and leaves the camera alone. A move that
  does not change a slider's value calls nothing.
\<close>

theorem C1_controls_wiring:
  "(let w = run_events evs (EventAppWindow_init cx cy x y z) in
      new_calls w (handle_event (Click UpBtn) w) = [Call_moveCamera ''forward'']
    \<and> new_calls w (handle_event (Click DownBtn) w) = [Call_moveCamera ''backward'']
    \<and> new_calls w (handle_event (Click LeftBtn) w) = [Call_moveCamera ''left'']
    \<and> new_calls w (handle_event (Click RightBtn) w) = [Call_moveCamera ''right'']
    \<and> new_calls w (handle_event (Move CamX v) w) =
        (if bound (- 180) v 180 = val (camX w) then []
         else [Call_turnAround (float (bound (- 180) v 180 - val (camX w))) 0])
    \<and> new_calls w (handle_event (Move CamY v) w) =
        (if bound (- 180) v 180 = val (camY w) then []
         else [Call_turnAround 0 (float (bound (- 180) v 180 - val (camY w)))])
    \<and> new_calls w (handle_event (Move XSlider v) w) =
        (if bound (- 180) v 180 = val (xSlider w) then []
         else [Call_rotateCubes (bound (- 180) v 180) (val (ySlider w)) (val (zSlider w))])
    \<and> new_calls w (handle_event (Move YSlider v) w) =
        (if bound (- 180) v 180 = val (ySlider w) then []
         else [Call_rotateCubes (val (xSlider w)) (bound (- 180) v 180) (val (zSlider w))])
    \<and> new_calls w (handle_event (Move ZSlider v) w) =
        (if bound (- 180) v 180 = val (zSlider w) then []
         else [Call_rotateCubes (val (xSlider w)) (val (ySlider w)) (bound (- 180) v 180)]))
   \<and> calls (camera (EventsGL_call (Call_moveCamera d) g)) = calls (camera g) @ [Cam_move d]
   \<and> calls (camera (EventsGL_call (Call_turnAround a b) g)) =
       calls (camera g) @ [Cam_lookAround a b True]
   \<and> camera (EventsGL_call (Call_rotateCubes rx ry rz) g) = camera g
   \<and> rotateVector (EventsGL_call (Call_rotateCubes rx ry rz) g) =
       QVector3D (float rx) (float ry) (float rz)"
proof -
  let ?w = "run_events evs (EventAppWindow_init cx cy x y z)"
  from reachable_ok[of evs cx cy x y z] have ok: "window_ok ?w" by simp
  then have c: "connections ?w = wired" by (simp add: window_ok_def)
  from ok have r:
    "minimum (camX ?w) = - 180" "maximum (camX ?w) = 180"
    "minimum (camY ?w) = - 180" "maximum (camY ?w) = 180"
    "minimum (xSlider ?w) = - 180" "maximum (xSlider ?w) = 180"
    "minimum (ySlider ?w) = - 180" "maximum (ySlider ?w) = 180"
    "minimum (zSlider ?w) = - 180" "maximum (zSlider ?w) = 180"
    and l: "lastCamXVal ?w = val (camX ?w)" "lastCamYVal ?w = val (camY ?w)"
    by (simp_all add: window_ok_def slider_ok_def)
  have b: "new_calls ?w (handle_event (Click UpBtn) ?w) = [Call_moveCamera ''forward'']"
    "new_calls ?w (handle_event (Click DownBtn) ?w) = [Call_moveCamera ''backward'']"
    "new_calls ?w (handle_event (Click LeftBtn) ?w) = [Call_moveCamera ''left'']"
    "new_calls ?w (handle_event (Click RightBtn) ?w) = [Call_moveCamera ''right'']"
    by (simp_all add: click_wired[OF c] new_calls_def)
  have s1: "new_calls ?w (handle_event (Move CamX v) ?w) =
        (if bound (- 180) v 180 = val (camX ?w) then []
         else [Call_turnAround (float (bound (- 180) v 180 - val (camX ?w))) 0])"
    by (simp add: setValue_CamX_wired[OF c r(1,2)] new_calls_def l float_def)
  have s2: "new_calls ?w (handle_event (Move CamY v) ?w) =
        (if bound (- 180) v 180 = val (camY ?w) then []
         else [Call_turnAround 0 (float (bound (- 180) v 180 - val (camY ?w)))])"
    by (simp add: setValue_CamY_wired[OF c r(3,4)] new_calls_def l float_def)
  have s3: "new_calls ?w (handle_event (Move XSlider v) ?w) =
        (if bound (- 180) v 180 = val (xSlider ?w) then []
         else [Call_rotateCubes (bound (- 180) v 180) (val (ySlider ?w)) (val (zSlider ?w))])"
    by (simp add: setValue_XSlider_wired[OF c r(5,6)] new_calls_def)
  have s4: "new_calls ?w (handle_event (Move YSlider v) ?w) =
        (if bound (- 180) v 180 = val (ySlider ?w) then []
         else [Call_rotateCubes (val (xSlider ?w)) (bound (- 180) v 180) (val (zSlider ?w))])"
    by (simp add: setValue_YSlider_wired[OF c r(7,8)] new_calls_def)
  have s5: "new_calls ?w (handle_event (Move ZSlider v) ?w) =
        (if bound (- 180) v 180 = val (zSlider ?w) then []
         else [Call_rotateCubes (val (xSlider ?w)) (val (ySlider ?w)) (bound (- 180) v 180)])"
    by (simp add: setValue_ZSlider_wired[OF c r(9,10)] new_calls_def)
  have g: "calls (camera (EventsGL_call (Call_moveCamera d) g)) = calls (camera g) @ [Cam_move d]"
    "calls (camera (EventsGL_call (Call_turnAround a b) g)) =
       calls (camera g) @ [Cam_lookAround a b True]"
    "camera (EventsGL_call (Call_rotateCubes rx ry rz) g) = camera g"
    "rotateVector (EventsGL_call (Call_rotateCubes rx ry rz) g) =
       QVector3D (float rx) (float ry) (float rz)"
    by (simp_all add: EventsGL_moveCamera_def EventsGL_turnAround_def EventsGL_rotateCubes_def
        QWidget_update_def move_def lookAround_def)
  show ?thesis unfolding Let_def using b s1 s2 s3 s4 s5 g by blast
qed

end
